theory Spec2Isabelle
  imports Main
begin

section \<open>Data model of the unpackers\<close>

text \<open>
  A shallow embedding of \<^verbatim>\<open>reprounzip/unpackers/default.py\<close>: the \<^verbatim>\<open>directory\<close> and
  \<^verbatim>\<open>chroot\<close> unpackers. Paths are strings, the file system is a map from paths to
  nodes, and every function that logs, exits, raises or touches the file system takes
  the world and returns a result (\<open>Inl\<close> the exception) with the new world.
\<close>

type_synonym path = string

text \<open>Exceptions. \<^verbatim>\<open>sys.exit(n)\<close> raises \<open>SystemExit n\<close>.\<close>

datatype error =
    SystemExit nat
  | UsageError
  | KeyError
  | IndexError
  | IOError
  | OSError
  | ReadError
  | ConfigError
  | CalledProcessError

datatype level = CRITICAL | ERROR | WARNING | INFO

text \<open>External processes started through \<^verbatim>\<open>subprocess\<close>.\<close>

datatype command =
    Ldconfig
  | MountBind path path
  | UmountUnder path
  | Shell string

datatype tartype = REGTYPE | SYMTYPE | DIRTYPE

text \<open>
  The fields of a \<^verbatim>\<open>tarfile.TarInfo\<close> that the unpackers read or assign, with the
  data the archive stores for the member.
\<close>

record tarinfo =
  name :: string
  ttype :: tartype
  linkname :: string
  uid :: nat
  gid :: nat
  data :: string

text \<open>
  What the program does besides changing files, in the order it does it: messages
  logged, signals sent, usage recorded, processes started, members handed to
  \<^verbatim>\<open>tarfile\<close> for extraction under a directory, a \<^verbatim>\<open>chown\<close> of a path to the owner of
  another, downloads, forwarded ports, chunks written to standard output and the
  status line written to standard error.
\<close>

datatype event =
    Log level string
  | Signal string
  | Usage string bool
  | Call command
  | Extract tarinfo path
  | Chown path path
  | Fetch string path
  | Forward nat
  | Stdout string
  | Status int

definition issym :: "tarinfo \<Rightarrow> bool" where
  "issym m = (ttype m = SYMTYPE)"

record package =
  pkg_name :: string
  pkg_version :: string
  packfiles :: bool
  pkg_files :: "path list"

record run =
  argv :: "string list"
  binary :: string
  workingdir :: string
  environ :: "(string \<times> string) list"
  architecture :: string
  run_uid :: "string option"
  run_gid :: "string option"
  input_files :: "(string \<times> path) list"
  output_files :: "(string \<times> path) list"

record config =
  runs :: "run list"
  packages :: "package list"

text \<open>
  The dictionary pickled into \<^verbatim>\<open>.reprounzip\<close>. The program only ever stores the keys
  \<^verbatim>\<open>'unpacker'\<close>, \<^verbatim>\<open>'mounted'\<close> and \<^verbatim>\<open>'input_files'\<close>; a key that is absent is \<open>None\<close>.
\<close>

record pdict =
  unpacker :: "string option"
  mounted :: "bool option"
  up_input_files :: "(string \<times> path) list option"

definition empty_dict :: pdict where
  "empty_dict = \<lparr>unpacker = None, mounted = None, up_input_files = None\<rparr>"

text \<open>\<^verbatim>\<open>a.update(b)\<close>: the keys of \<open>b\<close> win.\<close>

definition dict_update :: "pdict \<Rightarrow> pdict \<Rightarrow> pdict" where
  "dict_update a b =
     \<lparr>unpacker = (case unpacker b of None \<Rightarrow> unpacker a | Some v \<Rightarrow> Some v),
      mounted = (case mounted b of None \<Rightarrow> mounted a | Some v \<Rightarrow> Some v),
      up_input_files =
        (case up_input_files b of None \<Rightarrow> up_input_files a | Some v \<Rightarrow> Some v)\<rparr>"

datatype node =
    Dir
  | File string
  | Link path
  | Pickle pdict
  | PackFile "tarinfo list"
  | Archive "(string \<times> node) list"

record world =
  fs :: "path \<rightharpoonup> node"
  trace :: "event list"

type_synonym 'a result = "(error + 'a) \<times> world"

text \<open>Command-line arguments, as \<^verbatim>\<open>argparse\<close> hands them to the commands.\<close>

record args =
  pack :: "path list"
  target :: path
  restore_owner :: "bool option"
  bind_magic_dirs :: "bool option"
  cmdline :: "string list option"
  run_arg :: "string option"
  x11 :: bool
  x11_display :: "string option"
  filespecs :: "string list"
  utype :: string

text \<open>
  The X11 handler of \<^verbatim>\<open>reprounzip.unpackers.common.x11\<close>, which is outside these
  sources: what \<^verbatim>\<open>chroot_run\<close> reads from it.
\<close>

record x11handler =
  fix_env :: "(string \<times> string) list \<Rightarrow> (string \<times> string) list"
  init_cmds :: "string list"
  port_forward :: "nat list"

text \<open>
  What the program reads from its surroundings and from helpers that are outside these
  sources: the process's ids, the platform, the configuration parser, the output and
  exit status of external processes, the shell quoting, the run selection, the text
  encoding of paths, the host's environment and name, and what a URL holds.
\<close>

record env =
  getuid :: nat
  getgid :: nat
  posix :: bool
  parse_config :: "string \<Rightarrow> config option"
  ldconfig_lines :: "string list"
  call_ok :: "command \<Rightarrow> bool"
  interruptible_call :: "string \<Rightarrow> world \<Rightarrow> int \<times> world"
  shell_escape :: "string \<Rightarrow> string"
  get_runs :: "run list \<Rightarrow> string option \<Rightarrow> string list option \<Rightarrow> error + nat list"
  encodable :: "string \<Rightarrow> bool"
  os_environ :: "(string \<times> string) list"
  hostname :: string
  busybox_url :: "string \<Rightarrow> string"
  url_content :: "string \<Rightarrow> string option"
  X11Handler :: "bool \<Rightarrow> string \<Rightarrow> string option \<Rightarrow> x11handler"

section \<open>Paths, strings and the file system\<close>

definition emit :: "event \<Rightarrow> world \<Rightarrow> world" where
  "emit e w = w\<lparr>trace := trace w @ [e]\<rparr>"

definition write_node :: "path \<Rightarrow> node \<Rightarrow> world \<Rightarrow> world" where
  "write_node p n w = w\<lparr>fs := (fs w)(p \<mapsto> n)\<rparr>"

definition exists :: "world \<Rightarrow> path \<Rightarrow> bool" where
  "exists w p = (fs w p \<noteq> None)"

definition startswith :: "string \<Rightarrow> string \<Rightarrow> bool" where
  "startswith s p = (take (length p) s = p)"

text \<open>\<^verbatim>\<open>sub in s\<close> on strings.\<close>

fun str_contains :: "string \<Rightarrow> string \<Rightarrow> bool" where
  "str_contains sub [] = (sub = [])"
| "str_contains sub (c # cs) = (startswith (c # cs) sub \<or> str_contains sub cs)"

text \<open>\<^verbatim>\<open>sep.join(xs)\<close>.\<close>

fun join :: "string \<Rightarrow> string list \<Rightarrow> string" where
  "join sep [] = []"
| "join sep [x] = x"
| "join sep (x # y # ys) = x @ sep @ join sep (y # ys)"

text \<open>\<^verbatim>\<open>s.split(c)\<close> for a one-character separator.\<close>

fun split :: "char \<Rightarrow> string \<Rightarrow> string list" where
  "split c [] = [[]]"
| "split c (x # xs) =
     (if x = c then [] # split c xs
      else (case split c xs of [] \<Rightarrow> [[x]] | y # ys \<Rightarrow> (x # y) # ys))"

text \<open>
  The \<^verbatim>\<open>rpaths\<close> library is not part of the repository. Its operations on POSIX
  paths are modelled on strings. A path is absolute when it starts with the separator.
  \<open>a / b\<close> is \<^verbatim>\<open>os.path.join\<close> on paths in normal form: an absolute right side
  replaces the left side, an empty side gives the other side, and otherwise the two
  are joined with a separator. The components of a path are the root (when absolute)
  followed by its non-empty segments, and its parent drops the last segment.
\<close>

definition is_absolute :: "path \<Rightarrow> bool" where
  "is_absolute p = startswith p ''/''"

definition pjoin :: "path \<Rightarrow> path \<Rightarrow> path" where
  "pjoin a b =
     (if is_absolute b then b
      else if a = [] then b
      else if b = [] then a
      else a @ ''/'' @ b)"

text \<open>
  \<^verbatim>\<open>rpaths\<close> keeps the string of a path in the normal form of \<^verbatim>\<open>posixpath.normpath\<close>:
  empty segments and \<^verbatim>\<open>.\<close> are dropped, a segment \<^verbatim>\<open>..\<close> removes the segment before it
  and is dropped at the root, and of the leading separators one is kept, or two when
  there are exactly two. \<^verbatim>\<open>norm_step\<close> is the body of the loop over the segments.
  The normal form is written out for the link targets of a pack, where it decides
  whether a translated target stays under the root; the other strings that become
  paths are taken as they are.
\<close>

definition norm_step :: "nat \<Rightarrow> string \<Rightarrow> string list \<Rightarrow> string list" where
  "norm_step initial_slashes seg new_comps =
     (if seg = [] \<or> seg = ''.'' then new_comps
      else if seg \<noteq> ''..'' \<or> (initial_slashes = 0 \<and> new_comps = []) \<or>
              (new_comps \<noteq> [] \<and> last new_comps = ''..'')
           then new_comps @ [seg]
      else if new_comps \<noteq> [] then butlast new_comps
      else new_comps)"

definition two_slashes :: "string \<Rightarrow> bool" where
  "two_slashes p = (startswith p ''//'' \<and> \<not> startswith p ''///'')"

definition normpath :: "string \<Rightarrow> string" where
  "normpath p =
     (let initial_slashes = (if startswith p ''/'' then (if two_slashes p then 2 else 1) else 0);
          comps = fold (norm_step initial_slashes) (split CHR ''/'' p) [];
          q = replicate initial_slashes CHR ''/'' @ join ''/'' comps
      in if q = [] then ''.'' else q)"

text \<open>
  The file system is keyed by paths in canonical form, so \<^verbatim>\<open>absolute()\<close> and
  \<^verbatim>\<open>resolve()\<close>, which return the canonical form of a path, return the path.
\<close>

definition absolute :: "path \<Rightarrow> path" where
  "absolute p = p"

definition resolve :: "path \<Rightarrow> path" where
  "resolve p = p"

definition components :: "path \<Rightarrow> string list" where
  "components p =
     (if is_absolute p then [''/''] else []) @ filter (\<lambda>s. s \<noteq> []) (split CHR ''/'' p)"

definition parent :: "path \<Rightarrow> path" where
  "parent p =
     (let segs = filter (\<lambda>s. s \<noteq> []) (split CHR ''/'' p)
      in (if is_absolute p then ''/'' else []) @ join ''/'' (butlast segs))"

text \<open>
  Modelled from the spec: \<^verbatim>\<open>join_root\<close> of \<^verbatim>\<open>reprounzip.unpackers.common\<close>, which is
  not among the sources. Section 4.1: \<^emph>\<open>a pure function concatenating the reconstructed
  root with the absolute path stripped of its leading root marker\<close>.
\<close>

definition join_root :: "path \<Rightarrow> path \<Rightarrow> path" where
  "join_root root p = pjoin root (if is_absolute p then tl p else p)"



text \<open>
  Segments without a separator that are not empty, and plain segments, which are
  neither \<^verbatim>\<open>.\<close> nor \<^verbatim>\<open>..\<close> either.
\<close>

definition segs :: "string list \<Rightarrow> bool" where
  "segs ss = (\<forall>s \<in> set ss. s \<noteq> [] \<and> CHR ''/'' \<notin> set s)"


section \<open>The persisted record\<close>

text \<open>
  \<^verbatim>\<open>write_dict(filename, dct, type_)\<close> starts from \<^verbatim>\<open>{'unpacker': type_}\<close>, updates it
  with \<open>dct\<close> and replaces the file.
\<close>

definition write_dict :: "path \<Rightarrow> pdict \<Rightarrow> string \<Rightarrow> world \<Rightarrow> world" where
  "write_dict filename dct type w =
     write_node filename (Pickle (dict_update (empty_dict\<lparr>unpacker := Some type\<rparr>) dct)) w"

text \<open>
  \<^verbatim>\<open>read_dict(filename, type_)\<close>: opening a missing file raises \<open>IOError\<close>,
  \<^verbatim>\<open>dct['unpacker']\<close> raises \<open>KeyError\<close> when the key is absent, and a kind other than
  the expected one is logged and raises \<open>UsageError\<close>.
\<close>

definition read_dict :: "path \<Rightarrow> string option \<Rightarrow> world \<Rightarrow> pdict result" where
  "read_dict filename type w =
     (case fs w filename of
        Some (Pickle dct) \<Rightarrow>
          (case type of
             None \<Rightarrow> (Inr dct, w)
           | Some t \<Rightarrow>
               (case unpacker dct of
                  None \<Rightarrow> (Inl KeyError, w)
                | Some u \<Rightarrow>
                    if u \<noteq> t then
                      (Inl UsageError,
                       emit (Log CRITICAL (''Wrong unpacker used: '' @ u @ '' != '' @ t)) w)
                    else (Inr dct, w)))
      | _ \<Rightarrow> (Inl IOError, w))"

text \<open>
  Modelled from the spec: the decorator \<^verbatim>\<open>target_must_exist\<close> of
  \<^verbatim>\<open>reprounzip.unpackers.common\<close>, which is not among the sources. Section 7: a missing
  target is a Usage error, fatal before any mutation.
\<close>

definition target_must_exist :: "(args \<Rightarrow> world \<Rightarrow> 'a result) \<Rightarrow> args \<Rightarrow> world \<Rightarrow> 'a result" where
  "target_must_exist func a w =
     (case fs w (target a) of
        Some Dir \<Rightarrow> func a w
      | _ \<Rightarrow>
          (Inl UsageError, emit (Log CRITICAL ''Error: Target directory doesn't exist'') w))"

section \<open>The privilege switches\<close>

text \<open>
  \<open>param\<close> is \<^verbatim>\<open>True\<close>, \<^verbatim>\<open>False\<close> or \<^verbatim>\<open>None\<close>: \<open>Some True\<close>, \<open>Some False\<close>, \<open>None\<close>.
\<close>

definition should_restore_owner :: "env \<Rightarrow> bool option \<Rightarrow> world \<Rightarrow> bool result" where
  "should_restore_owner E param w =
     (if getuid E \<noteq> 0 then
        (if param = Some True then
           (Inl (SystemExit 1),
            emit (Log CRITICAL
              ''Not running as root, cannot restore files' owner/group as requested'') w)
         else if param = None then
           (Inr False,
            emit (Usage ''restore_owner'' False)
              (emit (Log WARNING
                 ''Not running as root, won't restore files' owner/group'') w))
         else (Inr False, emit (Usage ''restore_owner'' False) w))
      else
        (if param = None then
           (Inr True,
            emit (Usage ''restore_owner'' True)
              (emit (Log INFO ''Running as root, we will restore files' owner/group'') w))
         else if param = Some True then (Inr True, emit (Usage ''restore_owner'' True) w)
         else (Inr False, emit (Usage ''restore_owner'' False) w)))"

definition should_mount_magic_dirs :: "env \<Rightarrow> bool option \<Rightarrow> world \<Rightarrow> bool result" where
  "should_mount_magic_dirs E param w =
     (if getuid E \<noteq> 0 then
        (if param = Some True then
           (Inl (SystemExit 1),
            emit (Log CRITICAL ''Not running as root, cannot mount /dev and /proc'') w)
         else if param = None then
           (Inr False,
            emit (Usage ''mount_magic_dirs'' False)
              (emit (Log WARNING ''Not running as root, won't mount /dev and /proc'') w))
         else (Inr False, emit (Usage ''mount_magic_dirs'' False) w))
      else
        (if param = None then
           (Inr True,
            emit (Usage ''mount_magic_dirs'' True)
              (emit (Log INFO ''Running as root, will mount /dev and /proc'') w))
         else if param = Some True then (Inr True, emit (Usage ''mount_magic_dirs'' True) w)
         else (Inr False, emit (Usage ''mount_magic_dirs'' False) w)))"

text \<open>The levels of the messages logged so far.\<close>

definition levels :: "world \<Rightarrow> level list" where
  "levels w = concat (map (\<lambda>e. case e of Log l _ \<Rightarrow> [l] | _ \<Rightarrow> []) (trace w))"

section \<open>Sequencing\<close>

text \<open>Run \<open>f\<close> on the value of \<open>r\<close>, unless \<open>r\<close> raised.\<close>

definition and_then :: "'a result \<Rightarrow> ('a \<Rightarrow> world \<Rightarrow> 'b result) \<Rightarrow> 'b result" where
  "and_then r f = (case r of (Inl e, w) \<Rightarrow> (Inl e, w) | (Inr x, w) \<Rightarrow> f x w)"

text \<open>\<^verbatim>\<open>mkdir\<close> of \<^verbatim>\<open>rpaths\<close>: nothing happens when the path exists.\<close>

definition mkdir :: "path \<Rightarrow> world \<Rightarrow> world" where
  "mkdir p w = (if exists w p then w else write_node p Dir w)"

text \<open>
  Modelled from the spec: \<^verbatim>\<open>rmtree_fixed\<close> of \<^verbatim>\<open>reprounzip.utils\<close>, which is not among
  the sources: the recursive deletion of a directory tree.
\<close>

definition rmtree_fixed :: "path \<Rightarrow> world \<Rightarrow> world" where
  "rmtree_fixed t w =
     w\<lparr>fs := (\<lambda>p. if p = t \<or> startswith p (t @ ''/'') then None else fs w p)\<rparr>"

section \<open>Destroying a directory target\<close>

definition directory_destroy :: "args \<Rightarrow> world \<Rightarrow> unit result" where
  "directory_destroy =
     target_must_exist (\<lambda>a w.
       and_then (read_dict (pjoin (target a) ''.reprounzip'') (Some ''directory'') w)
         (\<lambda>_ w.
            let w = emit (Log INFO (''Removing directory '' @ target a @ ''...'')) w;
                w = emit (Signal ''pre_destroy'') w;
                w = rmtree_fixed (target a) w
            in (Inr (), emit (Signal ''post_destroy'') w)))"

section \<open>Mounting and unmounting the magic directories\<close>

text \<open>The loop of \<^verbatim>\<open>chroot_mount\<close> over \<^verbatim>\<open>('/dev', '/dev/pts', '/proc')\<close>.\<close>

fun mount_dirs :: "env \<Rightarrow> path \<Rightarrow> path list \<Rightarrow> world \<Rightarrow> unit result" where
  "mount_dirs E root [] w = (Inr (), w)"
| "mount_dirs E root (m # ms) w =
     (let d = join_root root m;
          w = mkdir d w;
          w = emit (Log INFO (''Mounting '' @ m @ '' on '' @ d @ ''...'')) w;
          w = emit (Call (MountBind m d)) w
      in if call_ok E (MountBind m d) then mount_dirs E root ms w
         else (Inl CalledProcessError, w))"

definition chroot_mount :: "env \<Rightarrow> args \<Rightarrow> world \<Rightarrow> unit result" where
  "chroot_mount E =
     target_must_exist (\<lambda>a w.
       and_then (read_dict (pjoin (target a) ''.reprounzip'') (Some ''chroot'') w)
         (\<lambda>_ w.
            and_then (mount_dirs E (pjoin (target a) ''root'') [''/dev'', ''/dev/pts'', ''/proc''] w)
              (\<lambda>_ w.
                 let w = write_dict (pjoin (target a) ''.reprounzip'')
                           (empty_dict\<lparr>mounted := Some True\<rparr>) ''chroot'' w
                 in (Inr (),
                     emit (Log WARNING
                       (''The host's /dev and /proc have been mounted into the chroot. '' @
                        ''Do NOT remove the unpacked directory with rm -rf, '' @
                        ''it WILL WIPE the host's /dev directory.'')) w))))"

text \<open>
  The loop of \<^verbatim>\<open>chroot_unmount\<close> over \<^verbatim>\<open>('/dev', '/proc')\<close>: a mount point that does
  not exist is skipped, and a failing \<^verbatim>\<open>umount\<close> pipeline raises.
\<close>

fun unmount_dirs :: "env \<Rightarrow> path \<Rightarrow> path list \<Rightarrow> world \<Rightarrow> unit result" where
  "unmount_dirs E root [] w = (Inr (), w)"
| "unmount_dirs E root (m # ms) w =
     (let d = join_root root m
      in if exists w d then
           (let w = emit (Log INFO (''Unmounting '' @ d @ ''...'')) w;
                w = emit (Call (UmountUnder d)) w
            in if call_ok E (UmountUnder d) then unmount_dirs E root ms w
               else (Inl CalledProcessError, w))
         else unmount_dirs E root ms w)"

definition chroot_unmount :: "env \<Rightarrow> path \<Rightarrow> world \<Rightarrow> bool result" where
  "chroot_unmount E tgt w =
     and_then (read_dict (pjoin tgt ''.reprounzip'') (Some ''chroot'') w)
       (\<lambda>unpacked_info w.
          let is_mounted = (case mounted unpacked_info of None \<Rightarrow> False | Some b \<Rightarrow> b)
          in if \<not> is_mounted then (Inr False, w)
             else
               (let tgt = resolve tgt
                in and_then (unmount_dirs E (pjoin tgt ''root'') [''/dev'', ''/proc''] w)
                     (\<lambda>_ w.
                        let unpacked_info = unpacked_info\<lparr>mounted := Some False\<rparr>;
                            w = write_dict (pjoin tgt ''.reprounzip'') unpacked_info ''chroot'' w
                        in (Inr True, w))))"

definition chroot_destroy_unmount :: "env \<Rightarrow> args \<Rightarrow> world \<Rightarrow> unit result" where
  "chroot_destroy_unmount E =
     target_must_exist (\<lambda>a w.
       and_then (chroot_unmount E (target a) w)
         (\<lambda>r w.
            if \<not> r then
              (Inl (SystemExit 1), emit (Log CRITICAL ''Magic directories were not mounted'') w)
            else (Inr (), w)))"

definition chroot_destroy_dir :: "args \<Rightarrow> world \<Rightarrow> unit result" where
  "chroot_destroy_dir =
     target_must_exist (\<lambda>a w.
       and_then (read_dict (pjoin (target a) ''.reprounzip'') (Some ''chroot'') w)
         (\<lambda>unpacked_info w.
            let is_mounted = (case mounted unpacked_info of None \<Rightarrow> False | Some b \<Rightarrow> b)
            in if is_mounted then
                 (Inl (SystemExit 1),
                  emit (Log CRITICAL ''Magic directories might still be mounted'') w)
               else
                 (let w = emit (Log INFO (''Removing directory '' @ target a @ ''...'')) w;
                      w = emit (Signal ''pre_destroy'') w;
                      w = rmtree_fixed (target a) w
                  in (Inr (), emit (Signal ''post_destroy'') w))))"

definition chroot_destroy :: "env \<Rightarrow> args \<Rightarrow> world \<Rightarrow> unit result" where
  "chroot_destroy E =
     target_must_exist (\<lambda>a w.
       and_then (chroot_unmount E (target a) w)
         (\<lambda>_ w.
            let w = emit (Log INFO (''Removing directory '' @ target a @ ''...'')) w;
                w = emit (Signal ''pre_destroy'') w;
                w = rmtree_fixed (target a) w
            in (Inr (), emit (Signal ''post_destroy'') w)))"

section \<open>Running\<close>

text \<open>Dictionaries kept in order: \<^verbatim>\<open>d.get(k, default)\<close> and \<^verbatim>\<open>d[k] = v\<close>.\<close>

definition dict_get :: "'k \<Rightarrow> 'v \<Rightarrow> ('k \<times> 'v) list \<Rightarrow> 'v" where
  "dict_get k dflt d = (case map_of d k of None \<Rightarrow> dflt | Some v \<Rightarrow> v)"

fun dict_set :: "'k \<Rightarrow> 'v \<Rightarrow> ('k \<times> 'v) list \<Rightarrow> ('k \<times> 'v) list" where
  "dict_set k v [] = [(k, v)]"
| "dict_set k v ((k', v') # d) = (if k' = k then (k, v) # d else (k', v') # dict_set k v d)"

definition endswith :: "string \<Rightarrow> string \<Rightarrow> bool" where
  "endswith s p = (length p \<le> length s \<and> drop (length s - length p) s = p)"

text \<open>
  The library directories read from the lines of \<^verbatim>\<open>/sbin/ldconfig -v -N\<close>: the lines of
  three or more characters that do not start with a space or a tab and end with a colon
  and a newline, without these two.
\<close>

definition lib_dirs_of :: "string list \<Rightarrow> path list" where
  "lib_dirs_of ls =
     map (\<lambda>l. take (length l - 2) l)
       (filter (\<lambda>l. \<not> (length l < 3 \<or> hd l = CHR '' '' \<or> hd l = CHR 0x09) \<and>
                     endswith l [CHR '':'', CHR 0x0A]) ls)"

definition load_config_file :: "env \<Rightarrow> path \<Rightarrow> world \<Rightarrow> config result" where
  "load_config_file E p w =
     (case fs w p of
        Some (File text) \<Rightarrow>
          (case parse_config E text of None \<Rightarrow> (Inl ConfigError, w) | Some c \<Rightarrow> (Inr c, w))
      | _ \<Rightarrow> (Inl IOError, w))"

text \<open>
  Lines 278 to 288 of \<^verbatim>\<open>directory_run\<close>: the loop over the indices of \<open>argv\<close> that
  rewrites the arguments in place and sets the flag \<open>rewritten\<close>; \<open>av\<close> is \<^verbatim>\<open>argv\<close>.
\<close>

function rewrite_args ::
  "env \<Rightarrow> world \<Rightarrow> path \<Rightarrow> nat \<Rightarrow> string list \<Rightarrow> bool \<Rightarrow> string list \<times> bool" where
  "rewrite_args E w root i av rewritten =
     (if i < length av then
        (if \<not> encodable E (av ! i) then rewrite_args E w root (Suc i) av rewritten
         else if is_absolute (av ! i) then
           (let rp = join_root root (av ! i)
            in if exists w rp \<or> (3 < length (components rp) \<and> exists w (parent rp))
               then rewrite_args E w root (Suc i) (av[i := rp]) True
               else rewrite_args E w root (Suc i) av rewritten)
         else rewrite_args E w root (Suc i) av rewritten)
      else (av, rewritten))"
  by pat_completeness auto
termination
  by (relation "measure (\<lambda>(E, w, root, i, av, r). length av - i)") auto

declare rewrite_args.simps [simp del]

text \<open>
  Lines 273 to 293 of \<^verbatim>\<open>directory_run\<close>: the arguments of one run, the run with its
  argument list as the loop left it, and the notice logged when an argument changed.
\<close>

definition directory_argv ::
  "env \<Rightarrow> args \<Rightarrow> path \<Rightarrow> run \<Rightarrow> world \<Rightarrow> (string list \<times> run) \<times> world" where
  "directory_argv E a root r w =
     (case cmdline a of
        None \<Rightarrow>
          (let (argv', rewritten) = rewrite_args E w root 0 (argv r) False;
               w = (if rewritten then
                      emit (Log WARNING (''Rewrote command-line as: '' @
                             join '' '' (map (shell_escape E) argv'))) w
                    else w)
           in ((argv', r\<lparr>argv := argv'\<rparr>), w))
      | Some c \<Rightarrow> ((c, r), w))"

text \<open>Lines 244 to 295 of \<^verbatim>\<open>directory_run\<close>: the command line of one run.\<close>

definition directory_run_cmd ::
  "env \<Rightarrow> args \<Rightarrow> path \<Rightarrow> run \<Rightarrow> world \<Rightarrow> (string \<times> run) \<times> world" where
  "directory_run_cmd E a root r w =
     (let cmd = ''cd '' @ shell_escape E (join_root root (workingdir r)) @ '' && '';
          cmd = cmd @ ''/usr/bin/env -i '';
          env1 = environ r;
          env2 = (if x11 a then
                    (case map_of (os_environ E) ''DISPLAY'' of
                       None \<Rightarrow> env1 | Some v \<Rightarrow> dict_set ''DISPLAY'' v env1)
                  else env1);
          env3 = (if x11 a then
                    (case map_of (os_environ E) ''XAUTHORITY'' of
                       None \<Rightarrow> env2 | Some v \<Rightarrow> dict_set ''XAUTHORITY'' v env2)
                  else env2);
          r = r\<lparr>environ := env3\<rparr>;
          cmd = cmd @ join '' '' (map (\<lambda>(k, v). k @ ''='' @ shell_escape E v)
                                   (filter (\<lambda>(k, v). k \<noteq> ''PATH'') env3));
          cmd = cmd @ '' '';
          path = split CHR '':'' (dict_get ''PATH'' [] (environ r));
          dir_path = map (join_root root) (filter is_absolute path);
          path = join '':'' (dir_path @ path);
          cmd = cmd @ ''PATH='' @ shell_escape E path @ '' '';
          ((argv', r), w) = directory_argv E a root r w;
          cmd = cmd @ join '' '' (map (shell_escape E) argv')
      in ((cmd, r), w))"

text \<open>
  The loop over the selected runs. \<^verbatim>\<open>runs[run_number]\<close> raises \<open>IndexError\<close> out of
  range; the run's dictionary is changed in place, so the list of runs is passed on.
\<close>

fun directory_run_cmds ::
  "env \<Rightarrow> args \<Rightarrow> path \<Rightarrow> run list \<Rightarrow> nat list \<Rightarrow> world \<Rightarrow> string list result" where
  "directory_run_cmds E a root rs [] w = (Inr [], w)"
| "directory_run_cmds E a root rs (n # ns) w =
     (if n < length rs then
        (let ((cmd, r), w) = directory_run_cmd E a root (rs ! n) w
         in and_then (directory_run_cmds E a root (rs[n := r]) ns w)
              (\<lambda>cmds w. (Inr (cmd # cmds), w)))
      else (Inl IndexError, w))"

definition select_runs :: "env \<Rightarrow> config \<Rightarrow> args \<Rightarrow> world \<Rightarrow> nat list result" where
  "select_runs E cfg a w =
     (case get_runs E (runs cfg) (run_arg a) (cmdline a) of
        Inl e \<Rightarrow> (Inl e, w) | Inr ns \<Rightarrow> (Inr ns, w))"

text \<open>Lines 298 to 301 and 575 to 578: the call of the composed line and its report.\<close>

definition call_and_report :: "env \<Rightarrow> path \<Rightarrow> string \<Rightarrow> world \<Rightarrow> unit result" where
  "call_and_report E tgt cmds w =
     (let w = emit (Signal ''pre_run'') w;
          w = emit (Call (Shell cmds)) w;
          (retcode, w) = interruptible_call E cmds w;
          w = emit (Status retcode) w
      in (Inr (), emit (Signal ''post_run'') w))"

definition directory_run :: "env \<Rightarrow> args \<Rightarrow> world \<Rightarrow> unit result" where
  "directory_run E =
     target_must_exist (\<lambda>a w.
       and_then (read_dict (pjoin (target a) ''.reprounzip'') (Some ''directory'') w)
         (\<lambda>_ w.
       and_then (load_config_file E (pjoin (target a) ''config.yml'') w)
         (\<lambda>cfg w.
       and_then (select_runs E cfg a w)
         (\<lambda>selected_runs w.
            let root = absolute (pjoin (target a) ''root'');
                w = emit (Call Ldconfig) w;
                lib_dirs = ''export LD_LIBRARY_PATH='' @
                  join '':'' (map (\<lambda>d. shell_escape E (join_root root d))
                                (lib_dirs_of (ldconfig_lines E)))
            in and_then (directory_run_cmds E a root (runs cfg) selected_runs w)
                 (\<lambda>cmds w.
                    call_and_report E (target a) (join '' && '' (lib_dirs # cmds)) w)))))"

text \<open>Lines 552 to 555 of \<^verbatim>\<open>chroot_run\<close>: the arguments of one run.\<close>

definition chroot_argv :: "args \<Rightarrow> run \<Rightarrow> string list" where
  "chroot_argv a r =
     (case cmdline a of None \<Rightarrow> [binary r] @ drop 1 (argv r) | Some c \<Rightarrow> c)"

text \<open>Lines 544 to 563 of \<^verbatim>\<open>chroot_run\<close>: the command line of one run.\<close>

definition chroot_run_cmd :: "env \<Rightarrow> args \<Rightarrow> path \<Rightarrow> x11handler \<Rightarrow> run \<Rightarrow> string" where
  "chroot_run_cmd E a root x r =
     (let cmd = ''cd '' @ shell_escape E (workingdir r) @ '' && '';
          cmd = cmd @ ''/usr/bin/env -i '';
          env1 = fix_env x (environ r);
          cmd = cmd @ join '' '' (map (\<lambda>(k, v). k @ ''='' @ shell_escape E v) env1);
          cmd = cmd @ '' '';
          cmd = cmd @ join '' '' (map (shell_escape E) (chroot_argv a r));
          userspec = (case run_uid r of None \<Rightarrow> ''1000'' | Some u \<Rightarrow> u) @ '':'' @
                     (case run_gid r of None \<Rightarrow> ''1000'' | Some g \<Rightarrow> g)
      in ''chroot --userspec='' @ userspec @ '' '' @ shell_escape E root @
         '' /bin/sh -c '' @ shell_escape E cmd)"

fun chroot_run_cmds ::
  "env \<Rightarrow> args \<Rightarrow> path \<Rightarrow> x11handler \<Rightarrow> run list \<Rightarrow> nat list \<Rightarrow> error + string list" where
  "chroot_run_cmds E a root x rs [] = Inr []"
| "chroot_run_cmds E a root x rs (n # ns) =
     (if n < length rs then
        (case chroot_run_cmds E a root x rs ns of
           Inl e \<Rightarrow> Inl e
         | Inr cmds \<Rightarrow> Inr (chroot_run_cmd E a root x (rs ! n) # cmds))
      else Inl IndexError)"

definition chroot_run :: "env \<Rightarrow> args \<Rightarrow> world \<Rightarrow> unit result" where
  "chroot_run E =
     target_must_exist (\<lambda>a w.
       and_then (read_dict (pjoin (target a) ''.reprounzip'') (Some ''chroot'') w)
         (\<lambda>_ w.
       and_then (load_config_file E (pjoin (target a) ''config.yml'') w)
         (\<lambda>cfg w.
       and_then (select_runs E cfg a w)
         (\<lambda>selected_runs w.
            let root = pjoin (target a) ''root'';
                x = X11Handler E (x11 a) (hostname E) (x11_display a)
            in (case chroot_run_cmds E a root x (runs cfg) selected_runs of
                  Inl e \<Rightarrow> (Inl e, w)
                | Inr cmds \<Rightarrow>
                    (let cmds = map (\<lambda>c. ''chroot '' @ shell_escape E root @ '' /bin/sh -c '' @
                                          shell_escape E c) (init_cmds x) @ cmds;
                         cmds = join '' && '' cmds;
                         w = fold (\<lambda>portnum. emit (Forward portnum)) (port_forward x) w
                     in call_and_report E (target a) cmds w))))))"

section \<open>Upload and download\<close>

text \<open>
  \<^verbatim>\<open>LocalUploader(target, input_files, files, type_, param_restore_owner)\<close> runs the
  upload in the constructor of its base class \<^verbatim>\<open>FileUploader\<close>, which is outside these
  sources. It is a parameter of \<^verbatim>\<open>upload\<close>: any function that returns or raises, hands
  back the dictionary \<open>input_files\<close> as it left it, and changes the world.
\<close>

type_synonym uploader =
  "path \<Rightarrow> (string \<times> path) list \<Rightarrow> string list \<Rightarrow> string \<Rightarrow> bool option \<Rightarrow> world \<Rightarrow>
   (error + unit) \<times> (string \<times> path) list \<times> world"

text \<open>
  \<^verbatim>\<open>upload\<close>, lines 682 to 695. \<^verbatim>\<open>unpacked_info.setdefault('input_files', {})\<close> stores
  the dictionary that the uploader changes in place; the \<^verbatim>\<open>finally\<close> clause writes the
  record whether the uploader returned or raised, and then the exception goes on.
\<close>

definition upload :: "uploader \<Rightarrow> args \<Rightarrow> world \<Rightarrow> unit result" where
  "upload LocalUploader =
     target_must_exist (\<lambda>a w.
       and_then (read_dict (pjoin (target a) ''.reprounzip'') (Some (utype a)) w)
         (\<lambda>unpacked_info w.
            let input_files =
                  (case up_input_files unpacked_info of None \<Rightarrow> [] | Some d \<Rightarrow> d);
                (r, input_files, w) =
                  LocalUploader (target a) input_files (filespecs a) (utype a)
                    (if utype a = ''chroot'' then restore_owner a else Some False) w;
                unpacked_info = unpacked_info\<lparr>up_input_files := Some input_files\<rparr>;
                w = write_dict (pjoin (target a) ''.reprounzip'') unpacked_info (utype a) w
            in (r, w)))"

text \<open>
  \<^verbatim>\<open>LocalUploader.extract_original_input\<close>, lines 662 to 668: the member of the side
  archive is looked up (the last of that name; \<open>KeyError\<close> when there is none) and
  extracted to the temporary path.
\<close>

definition extract_original_input :: "path \<Rightarrow> string \<Rightarrow> path \<Rightarrow> path \<Rightarrow> world \<Rightarrow> path result" where
  "extract_original_input tgt input_name input_path temp w =
     (case fs w (pjoin tgt ''inputs.tar.gz'') of
        Some (Archive ms) \<Rightarrow>
          (case map_of (rev ms) (join_root [] input_path) of
             None \<Rightarrow> (Inl KeyError, w)
           | Some n \<Rightarrow> (Inr temp, write_node temp n w))
      | _ \<Rightarrow> (Inl ReadError, w))"

text \<open>
  The loop of \<^verbatim>\<open>download_and_print\<close>, lines 714 to 721: chunks of 1024 characters go
  to standard output until a chunk is shorter.
\<close>

function stream_out :: "string \<Rightarrow> world \<Rightarrow> world" where
  "stream_out s w =
     (let chunk = take 1024 s;
          w = (if chunk \<noteq> [] then emit (Stdout chunk) w else w)
      in if length chunk = 1024 then stream_out (drop 1024 s) w else w)"
  by pat_completeness auto
termination
  by (relation "measure (\<lambda>(s, w). length s)") auto

declare stream_out.simps [simp del]

text \<open>\<^verbatim>\<open>LocalDownloader.download_and_print\<close>, lines 706 to 721.\<close>

definition download_and_print :: "path \<Rightarrow> path \<Rightarrow> world \<Rightarrow> unit result" where
  "download_and_print root remote_path w =
     (let remote_path = join_root root remote_path
      in if \<not> exists w remote_path then
           (Inl (SystemExit 1),
            emit (Log CRITICAL (''Can't get output file (doesn't exist): '' @ remote_path)) w)
         else
           (case fs w remote_path of
              Some (File s) \<Rightarrow> (Inr (), stream_out s w)
            | _ \<Rightarrow> (Inl IOError, w)))"

text \<open>\<^verbatim>\<open>LocalDownloader.download\<close>, lines 723 to 732.\<close>

definition LocalDownloader_download :: "path \<Rightarrow> path \<Rightarrow> path \<Rightarrow> world \<Rightarrow> unit result" where
  "LocalDownloader_download root remote_path local_path w =
     (let remote_path = join_root root remote_path
      in if \<not> exists w remote_path then
           (Inl (SystemExit 1),
            emit (Log CRITICAL (''Can't get output file (doesn't exist): '' @ remote_path)) w)
         else
           (case fs w remote_path of
              Some (File s) \<Rightarrow> (Inr (), write_node local_path (File s) w)
            | _ \<Rightarrow> (Inl IOError, w)))"

text \<open>\<^verbatim>\<open>spec.split(':', 1)\<close> when it gives two parts.\<close>

fun split_spec :: "string \<Rightarrow> (string \<times> string) option" where
  "split_spec [] = None"
| "split_spec (c # cs) =
     (if c = CHR '':'' then Some ([], cs)
      else (case split_spec cs of None \<Rightarrow> None | Some (l, r) \<Rightarrow> Some (c # l, r)))"

text \<open>
  Modelled from the spec: the loop of \<^verbatim>\<open>FileDownloader\<close> of
  \<^verbatim>\<open>reprounzip.unpackers.common\<close> over the download specifications, which is not among
  the sources. Section 6: \<^emph>\<open>role:\<close> streams to standard output, \<^emph>\<open>role:localfile\<close> copies
  to a local file. Section 7: all failures are reported once and stop the current
  command; so the specifications are handled in order and an exception raised for one
  goes on out of the loop.
\<close>

fun download_specs :: "path \<Rightarrow> (string \<times> path) list \<Rightarrow> string list \<Rightarrow> world \<Rightarrow> unit result" where
  "download_specs root outs [] w = (Inr (), w)"
| "download_specs root outs (spec # specs) w =
     (case split_spec spec of
        None \<Rightarrow>
          (Inl UsageError, emit (Log CRITICAL (''Invalid file specification: '' @ spec)) w)
      | Some (output_name, local_path) \<Rightarrow>
          (case map_of outs output_name of
             None \<Rightarrow>
               (Inl UsageError, emit (Log CRITICAL (''Invalid output file: '' @ output_name)) w)
           | Some remote_path \<Rightarrow>
               and_then
                 (if local_path = [] then download_and_print root remote_path w
                  else LocalDownloader_download root remote_path local_path w)
                 (\<lambda>_ w. download_specs root outs specs w)))"

text \<open>
  Modelled from the spec: \<^verbatim>\<open>LocalDownloader(target, files, type_)\<close>, whose constructor
  is that of \<^verbatim>\<open>FileDownloader\<close>, not among the sources. Without specifications the output
  files are listed; \<^verbatim>\<open>prepare_download\<close> (line 704) sets the root.
\<close>

definition LocalDownloader :: "env \<Rightarrow> path \<Rightarrow> string list \<Rightarrow> string \<Rightarrow> world \<Rightarrow> unit result" where
  "LocalDownloader E tgt files type w =
     and_then (load_config_file E (pjoin tgt ''config.yml'') w)
       (\<lambda>cfg w.
          let outs = concat (map output_files (runs cfg))
          in if files = [] then (Inr (), fold (\<lambda>(k, v). emit (Stdout k)) outs w)
             else download_specs (absolute (pjoin tgt ''root'')) outs files w)"

text \<open>\<^verbatim>\<open>download\<close>, lines 735 to 743.\<close>

definition download :: "env \<Rightarrow> args \<Rightarrow> world \<Rightarrow> unit result" where
  "download E =
     target_must_exist (\<lambda>a w.
       and_then (read_dict (pjoin (target a) ''.reprounzip'') (Some (utype a)) w)
         (\<lambda>_ w. LocalDownloader E (target a) (filespecs a) (utype a) w))"

section \<open>Setup\<close>

text \<open>
  \<^verbatim>\<open>tar.getmember(name)\<close> finds the last member of that name and raises \<open>KeyError\<close>
  when there is none. Assigning to its \<^verbatim>\<open>name\<close> changes the member in the list that
  \<^verbatim>\<open>tar.getmembers()\<close> returns.
\<close>

definition getmember :: "string \<Rightarrow> tarinfo list \<Rightarrow> error + tarinfo" where
  "getmember n ms =
     (case find (\<lambda>m. name m = n) (rev ms) of None \<Rightarrow> Inl KeyError | Some m \<Rightarrow> Inr m)"

fun rename_first :: "string \<Rightarrow> string \<Rightarrow> tarinfo list \<Rightarrow> tarinfo list" where
  "rename_first n n' [] = []"
| "rename_first n n' (m # ms) =
     (if name m = n then m\<lparr>name := n'\<rparr> # ms else m # rename_first n n' ms)"

definition rename_last :: "string \<Rightarrow> string \<Rightarrow> tarinfo list \<Rightarrow> tarinfo list" where
  "rename_last n n' ms = rev (rename_first n n' (rev ms))"

text \<open>What \<^verbatim>\<open>tarfile\<close> writes for a member.\<close>

definition node_of :: "tarinfo \<Rightarrow> node" where
  "node_of m =
     (case ttype m of REGTYPE \<Rightarrow> File (data m) | SYMTYPE \<Rightarrow> Link (linkname m) | DIRTYPE \<Rightarrow> Dir)"

text \<open>\<^verbatim>\<open>tar.extract(member, path)\<close> and \<^verbatim>\<open>tar.extractall(path, members)\<close>.\<close>

definition tar_extract :: "tarinfo \<Rightarrow> path \<Rightarrow> world \<Rightarrow> world" where
  "tar_extract m dir w =
     emit (Extract m dir) (write_node (pjoin dir (name m)) (node_of m) (mkdir dir w))"

definition tar_extractall :: "path \<Rightarrow> tarinfo list \<Rightarrow> world \<Rightarrow> world" where
  "tar_extractall dir ms w = fold (\<lambda>m. tar_extract m dir) ms w"

text \<open>
  Lines 132 to 139 and 407 to 414: the configuration member is renamed, extracted into
  the target and loaded. The members are returned as \<^verbatim>\<open>tar.getmembers()\<close> gives them
  from then on.
\<close>

definition unpack_config :: "env \<Rightarrow> path \<Rightarrow> path \<Rightarrow> world \<Rightarrow> (tarinfo list \<times> config) result" where
  "unpack_config E pk tgt w =
     (case fs w pk of
        Some (PackFile ms) \<Rightarrow>
          (case getmember ''METADATA/config.yml'' ms of
             Inl e \<Rightarrow> (Inl e, w)
           | Inr member \<Rightarrow>
               (let member = member\<lparr>name := ''config.yml''\<rparr>;
                    ms = rename_last ''METADATA/config.yml'' ''config.yml'' ms;
                    w = tar_extract member tgt w
                in and_then (load_config_file E (pjoin tgt ''config.yml'') w)
                     (\<lambda>cfg w. (Inr (ms, cfg), w))))
      | _ \<Rightarrow> (Inl ReadError, w))"

text \<open>Lines 145 to 162 of \<^verbatim>\<open>directory_create\<close>: the files of unpacked packages.\<close>

definition missing_on_host :: "world \<Rightarrow> package list \<Rightarrow> (path \<times> string) list" where
  "missing_on_host w pkgs =
     concat (map (\<lambda>pkg. if packfiles pkg then []
                         else map (\<lambda>f. (f, pkg_name pkg))
                                (filter (\<lambda>f. \<not> exists w f) (pkg_files pkg))) pkgs)"

definition check_packages :: "package list \<Rightarrow> world \<Rightarrow> world" where
  "check_packages pkgs w =
     (let missing = missing_on_host w pkgs;
          w = fold (\<lambda>(f, n). emit (Log ERROR
                 (''Missing file '' @ f @ '' (from package '' @ n @
                  '' that wasn't packed) on host, experiment will probably miss it.'')))
                missing w
      in if missing \<noteq> [] then
           emit (Log ERROR
             (''Some packages are missing, you should probably install them.'' @
              [CHR 0x0A] @ ''Use 'reprounzip installpkgs -h' for help''))
             (emit (Usage ''directory_missing_pkgs'' True) w)
         else w)"

text \<open>The check of line 165 and of line 453, on one member.\<close>

definition invalid_pathname :: "tarinfo \<Rightarrow> bool" where
  "invalid_pathname m = (str_contains ''..'' (name m) \<or> startswith (name m) ''/'')"

text \<open>Lines 168 to 170 and 456 to 458: the data members, without the prefix.\<close>

definition data_members :: "tarinfo list \<Rightarrow> tarinfo list" where
  "data_members ms =
     map (\<lambda>m. m\<lparr>name := drop 5 (name m)\<rparr>) (filter (\<lambda>m. startswith (name m) ''DATA/'') ms)"

text \<open>
  Lines 172 to 177 of \<^verbatim>\<open>directory_create\<close>, on one member. \<^verbatim>\<open>PosixPath(m.linkname)\<close>
  is the link target in normal form.
\<close>

definition fix_symlink :: "path \<Rightarrow> tarinfo \<Rightarrow> tarinfo" where
  "fix_symlink root m =
     (if \<not> issym m then m
      else (let link_path = normpath (linkname m)
            in if is_absolute link_path then m\<lparr>linkname := join_root root link_path\<rparr>
               else m))"

text \<open>Lines 164 to 180 of \<^verbatim>\<open>directory_create\<close>.\<close>

definition directory_unpack_files :: "path \<Rightarrow> tarinfo list \<Rightarrow> world \<Rightarrow> unit result" where
  "directory_unpack_files root ms w =
     (if list_ex invalid_pathname ms then
        (Inl (SystemExit 1), emit (Log CRITICAL ''Tar archive contains invalid pathnames'') w)
      else
        (let members = data_members ms;
             members = map (fix_symlink root) members;
             w = emit (Log INFO ''Extracting files...'') w
         in (Inr (), tar_extractall root members w)))"

text \<open>Lines 452 to 467 of \<^verbatim>\<open>chroot_create\<close>.\<close>

definition chroot_unpack_files ::
  "env \<Rightarrow> bool \<Rightarrow> path \<Rightarrow> tarinfo list \<Rightarrow> world \<Rightarrow> unit result" where
  "chroot_unpack_files E restore root ms w =
     (if list_ex invalid_pathname ms then
        (Inl (SystemExit 1), emit (Log CRITICAL ''Tar archive contains invalid pathnames'') w)
      else
        (let members = data_members ms;
             members = (if \<not> restore then
                          map (\<lambda>m. m\<lparr>uid := getuid E, gid := getgid E\<rparr>) members
                        else members);
             w = emit (Log INFO ''Extracting files...'') w
         in (Inr (), tar_extractall root members w)))"

text \<open>
  Lines 195 to 203 and 487 to 495: the side archive of the input files. Adding a file
  that does not exist raises \<open>OSError\<close>; \<^verbatim>\<open>tarfile\<close> stores a name without its leading
  separator.
\<close>

fun add_inputs :: "path \<Rightarrow> path \<Rightarrow> path list \<Rightarrow> world \<Rightarrow> unit result" where
  "add_inputs tar root [] w = (Inr (), w)"
| "add_inputs tar root (ifile # rest) w =
     (case fs w (join_root root ifile) of
        None \<Rightarrow> (Inl OSError, w)
      | Some n \<Rightarrow>
          (case fs w tar of
             Some (Archive ms) \<Rightarrow>
               add_inputs tar root rest
                 (write_node tar (Archive (ms @ [(join_root [] ifile, n)])) w)
           | _ \<Rightarrow> (Inl IOError, w)))"

definition pack_inputs :: "path \<Rightarrow> path \<Rightarrow> run list \<Rightarrow> world \<Rightarrow> unit result" where
  "pack_inputs tgt root rs w =
     (if list_ex (\<lambda>r. input_files r \<noteq> []) rs then
        (let w = emit (Log INFO ''Packing up original input files...'') w;
             w = write_node (pjoin tgt ''inputs.tar.gz'') (Archive []) w
         in add_inputs (pjoin tgt ''inputs.tar.gz'') root
              (concat (map (\<lambda>r. map snd (input_files r)) rs)) w)
      else (Inr (), w))"

text \<open>\<^verbatim>\<open>directory_create\<close>, lines 107 to 208.\<close>

definition directory_create :: "env \<Rightarrow> args \<Rightarrow> world \<Rightarrow> unit result" where
  "directory_create E a w =
     (case pack a of
        [] \<Rightarrow> (Inl (SystemExit 1), emit (Log CRITICAL ''setup needs the pack filename'') w)
      | pk # _ \<Rightarrow>
          if exists w (target a) then
            (Inl (SystemExit 1), emit (Log CRITICAL ''Target directory exists'') w)
          else if \<not> posix E then
            (Inl (SystemExit 1), emit (Log CRITICAL ''Not unpacking on POSIX system'') w)
          else
            and_then (unpack_config E pk (target a) (emit (Signal ''pre_setup'') w))
              (\<lambda>(ms, cfg) w.
                 let w = mkdir (target a) w;
                     root = absolute (pjoin (target a) ''root'');
                     w = mkdir root w;
                     w = check_packages (packages cfg) w
                 in and_then (directory_unpack_files root ms w)
                      (\<lambda>_ w.
                         and_then (pack_inputs (target a) root (runs cfg) (emit (Call Ldconfig) w))
                           (\<lambda>_ w.
                              let w = write_dict (pjoin (target a) ''.reprounzip'')
                                        empty_dict ''directory'' w
                              in (Inr (), emit (Signal ''post_setup'') w)))))"

text \<open>
  Lines 430 to 448 of \<^verbatim>\<open>chroot_create\<close>: the files of one package that was not packed
  are copied from the host. The result tells whether a file was missing.
\<close>

fun copy_files :: "path \<Rightarrow> bool \<Rightarrow> string \<Rightarrow> path list \<Rightarrow> world \<Rightarrow> bool result" where
  "copy_files root restore n [] w = (Inr False, w)"
| "copy_files root restore n (f # rest) w =
     (if \<not> exists w f then
        and_then
          (copy_files root restore n rest
             (emit (Log ERROR (''Missing file '' @ f @ '' (from package '' @ n @
                     '') on host, experiment will probably miss it'')) w))
          (\<lambda>_ w. (Inr True, w))
      else
        (let dest = join_root root f;
             w = mkdir (parent dest) w
         in (case fs w f of
               Some (Link t) \<Rightarrow>
                 copy_files root restore n rest
                   (let w = write_node dest (Link t) w
                    in if restore then emit (Chown dest f) w else w)
             | Some (File s) \<Rightarrow>
                 copy_files root restore n rest
                   (let w = write_node dest (File s) w
                    in if restore then emit (Chown dest f) w else w)
             | _ \<Rightarrow> (Inl IOError, w))))"

fun copy_packages :: "path \<Rightarrow> bool \<Rightarrow> package list \<Rightarrow> world \<Rightarrow> bool result" where
  "copy_packages root restore [] w = (Inr False, w)"
| "copy_packages root restore (pkg # pkgs) w =
     and_then (copy_files root restore (pkg_name pkg) (pkg_files pkg) w)
       (\<lambda>m1 w. and_then (copy_packages root restore pkgs w) (\<lambda>m2 w. (Inr (m1 \<or> m2), w)))"

text \<open>Lines 420 to 450 of \<^verbatim>\<open>chroot_create\<close>.\<close>

definition chroot_copy_packages :: "path \<Rightarrow> bool \<Rightarrow> package list \<Rightarrow> world \<Rightarrow> unit result" where
  "chroot_copy_packages root restore pkgs w =
     (let packages_not_packed = filter (\<lambda>pkg. \<not> packfiles pkg) pkgs
      in if packages_not_packed \<noteq> [] then
           (let w = emit (Usage ''chroot_missing_pkgs'' True) w;
                w = emit (Log WARNING
                      (''According to configuration, some files were left out because '' @
                       ''they belong to the following packages:'' @
                       concat (map (\<lambda>pkg. [CHR 0x0A] @ ''    '' @ pkg_name pkg)
                                 packages_not_packed) @
                       [CHR 0x0A] @ ''Will copy files from HOST SYSTEM'')) w
            in and_then (copy_packages root restore packages_not_packed w)
                 (\<lambda>missing_files w.
                    (Inr (), if missing_files then emit (Usage ''chroot_mising_files'' True) w
                             else w)))
         else (Inr (), w))"

text \<open>
  Lines 469 to 485 of \<^verbatim>\<open>chroot_create\<close>. Permissions are not part of the model, so
  \<^verbatim>\<open>make_dir_writable\<close> and \<^verbatim>\<open>chmod\<close> leave no mark; \<^verbatim>\<open>runs[0]\<close> raises \<open>IndexError\<close> when
  there is no run, and a failed download raises \<open>IOError\<close>.
\<close>

definition setup_busybox :: "env \<Rightarrow> path \<Rightarrow> run list \<Rightarrow> world \<Rightarrow> unit result" where
  "setup_busybox E root rs w =
     (let sh_path = join_root root ''/bin/sh'';
          env_path = join_root root ''/usr/bin/env''
      in if \<not> exists w sh_path \<or> \<not> exists w env_path then
           (let w = emit (Log INFO ''Setting up busybox...'') w;
                busybox_path = join_root root ''/bin/busybox'';
                w = mkdir (parent busybox_path) w
            in (case rs of
                  [] \<Rightarrow> (Inl IndexError, w)
                | r0 # _ \<Rightarrow>
                    (let url = busybox_url E (architecture r0);
                         w = emit (Fetch url busybox_path) w
                     in (case url_content E url of
                           None \<Rightarrow> (Inl IOError, w)
                         | Some s \<Rightarrow>
                             (let w = write_node busybox_path (File s) w;
                                  w = (if \<not> exists w sh_path then
                                         write_node sh_path (Link ''/bin/busybox'')
                                           (mkdir (parent sh_path) w)
                                       else w);
                                  w = (if \<not> exists w env_path then
                                         write_node env_path (Link ''/bin/busybox'')
                                           (mkdir (parent env_path) w)
                                       else w)
                              in (Inr (), w))))))
         else (Inr (), w))"

text \<open>\<^verbatim>\<open>chroot_create\<close>, lines 379 to 500.\<close>

definition chroot_create :: "env \<Rightarrow> args \<Rightarrow> world \<Rightarrow> unit result" where
  "chroot_create E a w =
     (case pack a of
        [] \<Rightarrow>
          (Inl (SystemExit 1), emit (Log CRITICAL ''setup/create needs the pack filename'') w)
      | pk # _ \<Rightarrow>
          if exists w (target a) then
            (Inl (SystemExit 1), emit (Log CRITICAL ''Target directory exists'') w)
          else if \<not> posix E then
            (Inl (SystemExit 1), emit (Log CRITICAL ''Not unpacking on POSIX system'') w)
          else
            and_then (should_restore_owner E (restore_owner a) (emit (Signal ''pre_setup'') w))
              (\<lambda>restore w.
            and_then (unpack_config E pk (target a) w)
              (\<lambda>(ms, cfg) w.
                 let w = mkdir (target a) w;
                     root = absolute (pjoin (target a) ''root'');
                     w = mkdir root w
                 in and_then (chroot_copy_packages root restore (packages cfg) w)
                      (\<lambda>_ w.
                    and_then (chroot_unpack_files E restore root ms w)
                      (\<lambda>_ w.
                    and_then (setup_busybox E root (runs cfg) w)
                      (\<lambda>_ w.
                    and_then (pack_inputs (target a) root (runs cfg) w)
                      (\<lambda>_ w.
                         let w = write_dict (pjoin (target a) ''.reprounzip'')
                                   empty_dict ''chroot'' w
                         in (Inr (), emit (Signal ''post_setup'') w))))))))"

text \<open>\<^verbatim>\<open>chroot_setup\<close>, lines 859 to 864.\<close>

definition chroot_setup :: "env \<Rightarrow> args \<Rightarrow> world \<Rightarrow> unit result" where
  "chroot_setup E a w =
     and_then (chroot_create E a w)
       (\<lambda>_ w.
          and_then (should_mount_magic_dirs E (bind_magic_dirs a) w)
            (\<lambda>m w. if m then chroot_mount E a w else (Inr (), w)))"

section \<open>The commands of the two unpackers\<close>

text \<open>
  \<^verbatim>\<open>setup_directory\<close> and \<^verbatim>\<open>setup_chroot\<close>, lines 796 to 974: the function that each
  action of each unpacker runs, with the \<^verbatim>\<open>type\<close> that \<^verbatim>\<open>set_defaults\<close> gives to
  \<^verbatim>\<open>upload\<close> and \<^verbatim>\<open>download\<close>.
\<close>

datatype action =
    Setup | SetupCreate | SetupMount | Upload | Run | Download
  | Destroy | DestroyUnmount | DestroyDir

definition dispatch ::
  "string \<Rightarrow> action \<Rightarrow> (env \<Rightarrow> uploader \<Rightarrow> args \<Rightarrow> world \<Rightarrow> unit result) option" where
  "dispatch u act =
     (if u = ''directory'' then
        (case act of
           Setup \<Rightarrow> Some (\<lambda>E U a. directory_create E a)
         | Upload \<Rightarrow> Some (\<lambda>E U a. upload U (a\<lparr>utype := ''directory''\<rparr>))
         | Run \<Rightarrow> Some (\<lambda>E U a. directory_run E a)
         | Download \<Rightarrow> Some (\<lambda>E U a. download E (a\<lparr>utype := ''directory''\<rparr>))
         | Destroy \<Rightarrow> Some (\<lambda>E U a. directory_destroy a)
         | _ \<Rightarrow> None)
      else if u = ''chroot'' then
        (case act of
           SetupCreate \<Rightarrow> Some (\<lambda>E U a. chroot_create E a)
         | SetupMount \<Rightarrow> Some (\<lambda>E U a. chroot_mount E a)
         | Setup \<Rightarrow> Some (\<lambda>E U a. chroot_setup E a)
         | Upload \<Rightarrow> Some (\<lambda>E U a. upload U (a\<lparr>utype := ''chroot''\<rparr>))
         | Run \<Rightarrow> Some (\<lambda>E U a. chroot_run E a)
         | Download \<Rightarrow> Some (\<lambda>E U a. download E (a\<lparr>utype := ''chroot''\<rparr>))
         | DestroyUnmount \<Rightarrow> Some (\<lambda>E U a. chroot_destroy_unmount E a)
         | DestroyDir \<Rightarrow> Some (\<lambda>E U a. chroot_destroy_dir a)
         | Destroy \<Rightarrow> Some (\<lambda>E U a. chroot_destroy E a))
      else None)"

text \<open>The actions that create the target; every other action needs it to exist.\<close>

definition creates_target :: "action \<Rightarrow> bool" where
  "creates_target act = (case act of Setup \<Rightarrow> True | SetupCreate \<Rightarrow> True | _ \<Rightarrow> False)"

text \<open>
  Modelled from the spec: the exit status of the process, which the entry point outside
  these sources decides. Section 6: \<^emph>\<open>any fatal setup/usage failure exits non-zero\<close>.
  \<^verbatim>\<open>sys.exit(n)\<close> ends the process with status \<open>n\<close>, any other exception that leaves
  the command ends it with status 1, and a command that returns ends it with 0.
\<close>

definition exit_status :: "error + 'a \<Rightarrow> nat" where
  "exit_status r = (case r of Inr _ \<Rightarrow> 0 | Inl (SystemExit n) \<Rightarrow> n | Inl _ \<Rightarrow> 1)"

text \<open>Whether the persisted record of a target says that it is mounted.\<close>

definition mounted_flag :: "world \<Rightarrow> path \<Rightarrow> bool" where
  "mounted_flag w tgt =
     (case fs w (pjoin tgt ''.reprounzip'') of
        Some (Pickle d) \<Rightarrow> (case mounted d of None \<Rightarrow> False | Some b \<Rightarrow> b)
      | _ \<Rightarrow> False)"

text \<open>The kind that the persisted record of a target holds.\<close>

definition recorded_kind :: "world \<Rightarrow> path \<Rightarrow> string option" where
  "recorded_kind w tgt =
     (case fs w (pjoin tgt ''.reprounzip'') of Some (Pickle d) \<Rightarrow> unpacker d | _ \<Rightarrow> None)"

text \<open>
  The magic directories of a target that exist, as the loop of \<^verbatim>\<open>chroot_unmount\<close> finds
  them (lines 596 to 600), and what unmounting them adds to the trace: one message and
  one \<^verbatim>\<open>umount\<close> pipeline for each.
\<close>

definition mount_points :: "world \<Rightarrow> path \<Rightarrow> path list" where
  "mount_points w tgt =
     filter (exists w) (map (join_root (pjoin tgt ''root'')) [''/dev'', ''/proc''])"

definition unmount_events :: "path list \<Rightarrow> event list" where
  "unmount_events ds =
     concat (map (\<lambda>d. [Log INFO (''Unmounting '' @ d @ ''...''), Call (UmountUnder d)]) ds)"

text \<open>
  The rewriting rule in the words of the specification (section 4.4): an argument that
  parses as an absolute path is rewritten to its translated candidate when the
  candidate exists, or when it does not exist but has more than three path components
  and its parent directory exists; every other argument is left as it is.
\<close>

definition spec_rewrites :: "env \<Rightarrow> world \<Rightarrow> path \<Rightarrow> string \<Rightarrow> bool" where
  "spec_rewrites E w root s =
     (encodable E s \<and> is_absolute s \<and>
      (exists w (join_root root s) \<or>
       (\<not> exists w (join_root root s) \<and> 3 < length (components (join_root root s)) \<and>
        exists w (parent (join_root root s)))))"

definition spec_rewritten :: "env \<Rightarrow> world \<Rightarrow> path \<Rightarrow> string \<Rightarrow> string" where
  "spec_rewritten E w root s = (if spec_rewrites E w root s then join_root root s else s)"

text \<open>The members handed to \<^verbatim>\<open>tarfile\<close> for extraction so far, with their destinations.\<close>

definition extracted :: "world \<Rightarrow> (tarinfo \<times> path) list" where
  "extracted w = concat (map (\<lambda>e. case e of Extract m d \<Rightarrow> [(m, d)] | _ \<Rightarrow> []) (trace w))"

text \<open>
  A later world keeps an earlier one when every path that existed still exists and
  nothing more has been handed to \<^verbatim>\<open>tarfile\<close> for extraction.
\<close>

definition keeps :: "world \<Rightarrow> world \<Rightarrow> bool" where
  "keeps w w' = (extracted w' = extracted w \<and> (\<forall>p. exists w p \<longrightarrow> exists w' p))"

text \<open>
  A setup has stopped before the data: it raised, nothing but the configuration member
  (if that) was handed to \<^verbatim>\<open>tarfile\<close>, and if the last thing it did was to log the
  message of the name check, then the target, its configuration file and its root
  directory exist.
\<close>

definition extracted_names :: "world \<Rightarrow> (string \<times> path) list" where
  "extracted_names w = map (\<lambda>(m, d). (name m, d)) (extracted w)"

definition stopped_before_data :: "world \<Rightarrow> path \<Rightarrow> unit result \<Rightarrow> bool" where
  "stopped_before_data w tgt r =
     (case r of
        (Inr _, w') \<Rightarrow> False
      | (Inl e, w') \<Rightarrow>
          (extracted_names w' = extracted_names w \<or>
           extracted_names w' = extracted_names w @ [(''config.yml'', tgt)]) \<and>
          (last (trace w') = Log CRITICAL ''Tar archive contains invalid pathnames'' \<longrightarrow>
             exists w' tgt \<and> exists w' (pjoin tgt ''config.yml'') \<and>
             exists w' (pjoin tgt ''root'')))"

section \<open>Example inputs\<close>

definition ex_run :: run where
  "ex_run =
     \<lparr>argv = [''/usr/bin/prog'', ''-o'', ''/out/result.txt''], binary = ''/usr/bin/prog'',
      workingdir = ''/home/user'', environ = [(''PATH'', ''/usr/bin'')],
      architecture = ''x86_64'', run_uid = None, run_gid = None, input_files = [],
      output_files = [(''out'', ''/out/result.txt''), (''log'', ''/out/log.txt'')]\<rparr>"

definition ex_config :: config where
  "ex_config = \<lparr>runs = [ex_run], packages = []\<rparr>"

definition ex_env :: env where
  "ex_env =
     \<lparr>getuid = 1000, getgid = 1000, posix = True,
      parse_config = (\<lambda>s. if s = ''cfg'' then Some ex_config else None),
      ldconfig_lines = [], call_ok = (\<lambda>c. True),
      interruptible_call = (\<lambda>c w. (0, w)), shell_escape = (\<lambda>s. s),
      get_runs = (\<lambda>rs r c. Inr [0]), encodable = (\<lambda>s. True), os_environ = [],
      hostname = ''host'', busybox_url = (\<lambda>a. ''busybox-'' @ a),
      url_content = (\<lambda>u. Some ''ELF''),
      X11Handler = (\<lambda>x h d. \<lparr>fix_env = (\<lambda>e. e), init_cmds = [], port_forward = []\<rparr>)\<rparr>"

definition ex_umount_fails_env :: env where
  "ex_umount_fails_env = ex_env\<lparr>call_ok := (\<lambda>c. False)\<rparr>"

definition ex_root_env :: env where
  "ex_root_env = ex_env\<lparr>getuid := 0, getgid := 0\<rparr>"

definition ex_world :: world where
  "ex_world = \<lparr>fs = Map.empty, trace = []\<rparr>"

definition ex_args :: args where
  "ex_args =
     \<lparr>pack = [''/p.rpz''], target = ''/t'', restore_owner = None, bind_magic_dirs = None,
      cmdline = None, run_arg = None, x11 = False, x11_display = None, filespecs = [],
      utype = ''chroot''\<rparr>"

text \<open>
  A pack with its configuration, a program and a symbolic link with an absolute target,
  and the same pack with one more member, whose name has a parent-directory segment.
\<close>

definition ex_members :: "tarinfo list" where
  "ex_members =
     [\<lparr>name = ''METADATA/config.yml'', ttype = REGTYPE, linkname = [], uid = 0, gid = 0,
       data = ''cfg''\<rparr>,
      \<lparr>name = ''DATA/usr/bin/prog'', ttype = REGTYPE, linkname = [], uid = 0, gid = 0,
       data = ''#!''\<rparr>,
      \<lparr>name = ''DATA/usr/bin/link'', ttype = SYMTYPE, linkname = ''/usr/bin/prog'', uid = 0,
       gid = 0, data = []\<rparr>]"

definition ex_bad_members :: "tarinfo list" where
  "ex_bad_members =
     ex_members @
     [\<lparr>name = ''DATA/../evil'', ttype = REGTYPE, linkname = [], uid = 0, gid = 0,
       data = ''x''\<rparr>]"

definition ex_host :: world where
  "ex_host =
     \<lparr>fs = [''/p.rpz'' \<mapsto> PackFile ex_members, ''/bad.rpz'' \<mapsto> PackFile ex_bad_members],
      trace = []\<rparr>"

definition ex_bad_args :: args where
  "ex_bad_args = ex_args\<lparr>pack := [''/bad.rpz'']\<rparr>"




text \<open>A chroot target with the magic directories mounted, and a directory target.\<close>

definition ex_mounted :: world where
  "ex_mounted =
     \<lparr>fs = [''/t'' \<mapsto> Dir,
            ''/t/.reprounzip'' \<mapsto>
              Pickle \<lparr>unpacker = Some ''chroot'', mounted = Some True, up_input_files = None\<rparr>,
            ''/t/root/dev'' \<mapsto> Dir],
      trace = []\<rparr>"

definition ex_directory :: world where
  "ex_directory =
     \<lparr>fs = [''/t'' \<mapsto> Dir,
            ''/t/.reprounzip'' \<mapsto>
              Pickle \<lparr>unpacker = Some ''directory'', mounted = None, up_input_files = None\<rparr>,
            ''/t/config.yml'' \<mapsto> File ''cfg'',
            ''/t/root/usr/bin/prog'' \<mapsto> File ''#!'',
            ''/t/root/out'' \<mapsto> Dir,
            ''/t/root/out/log.txt'' \<mapsto> File ''done''],
      trace = []\<rparr>"

text \<open>A chroot target that is not mounted.\<close>

definition ex_chroot :: world where
  "ex_chroot =
     \<lparr>fs = [''/t'' \<mapsto> Dir,
            ''/t/.reprounzip'' \<mapsto>
              Pickle \<lparr>unpacker = Some ''chroot'', mounted = None, up_input_files = None\<rparr>,
            ''/t/config.yml'' \<mapsto> File ''cfg'',
            ''/t/root/usr/bin/prog'' \<mapsto> File ''#!'',
            ''/t/root/out'' \<mapsto> Dir,
            ''/t/root/out/log.txt'' \<mapsto> File ''done''],
      trace = []\<rparr>"

text \<open>
  A download of two output files from the directory target: the first does not exist
  there, the second does.
\<close>

definition ex_download_args :: args where
  "ex_download_args = ex_args\<lparr>utype := ''directory'', filespecs := [''out:'', ''log:'']\<rparr>"

text \<open>An uploader that records one input file and then raises.\<close>

definition ex_failing_uploader :: uploader where
  "ex_failing_uploader tgt ifs files type param w =
     (Inl KeyError, ifs @ [(''in'', ''/home/user/in.txt'')], emit (Log ERROR ''failed'') w)"

section \<open>The privilege switches: properties\<close>

lemma levels_emit_Log: "levels (emit (Log l s) w) = levels w @ [l]"
  by (simp add: levels_def emit_def)

lemma levels_emit_Usage: "levels (emit (Usage k b) w) = levels w"
  by (simp add: levels_def emit_def)

lemma fs_emit: "fs (emit e w) = fs w"
  by (simp add: emit_def)

text \<open>
  C5. The resolution of the ownership switch. Without root: an explicit yes exits with
  status 1 after a critical message, unset gives no with one warning, an explicit no
  gives no and logs nothing. With root: unset gives yes, an explicit yes gives yes, an
  explicit no gives no. No case touches the file system.
\<close>

theorem should_restore_owner_rules:
  "(getuid E \<noteq> 0 \<longrightarrow>
      fst (should_restore_owner E (Some True) w) = Inl (SystemExit 1) \<and>
      levels (snd (should_restore_owner E (Some True) w)) = levels w @ [CRITICAL] \<and>
      fst (should_restore_owner E None w) = Inr False \<and>
      levels (snd (should_restore_owner E None w)) = levels w @ [WARNING] \<and>
      fst (should_restore_owner E (Some False) w) = Inr False \<and>
      levels (snd (should_restore_owner E (Some False) w)) = levels w) \<and>
   (getuid E = 0 \<longrightarrow>
      fst (should_restore_owner E None w) = Inr True \<and>
      fst (should_restore_owner E (Some True) w) = Inr True \<and>
      fst (should_restore_owner E (Some False) w) = Inr False) \<and>
   fs (snd (should_restore_owner E param w)) = fs w"
  by (simp add: should_restore_owner_def levels_emit_Log levels_emit_Usage fs_emit)

theorem should_restore_owner_rules_witness:
  "getuid ex_env \<noteq> 0 \<and>
   fst (should_restore_owner ex_env (Some True) ex_world) = Inl (SystemExit 1) \<and>
   levels (snd (should_restore_owner ex_env None ex_world)) = [WARNING] \<and>
   levels (snd (should_restore_owner ex_env (Some False) ex_world)) = [] \<and>
   getuid ex_root_env = 0 \<and>
   fst (should_restore_owner ex_root_env None ex_world) = Inr True \<and>
   fst (should_restore_owner ex_root_env (Some False) ex_world) = Inr False"
  using should_restore_owner_rules [of ex_env ex_world None]
    should_restore_owner_rules [of ex_root_env ex_world None]
  by (simp add: ex_env_def ex_root_env_def ex_world_def levels_def)

text \<open>
  C6. The two switches decide alike: for every request and every user id they return
  the same value or raise the same exit, log at the same levels, and leave the file
  system as it was. They differ in the text of the messages and in the usage key.
\<close>

theorem switches_same_decision:
  "fst (should_restore_owner E param w) = fst (should_mount_magic_dirs E param w) \<and>
   levels (snd (should_restore_owner E param w)) =
     levels (snd (should_mount_magic_dirs E param w)) \<and>
   fs (snd (should_restore_owner E param w)) = fs (snd (should_mount_magic_dirs E param w))"
  by (simp add: should_restore_owner_def should_mount_magic_dirs_def
      levels_emit_Log levels_emit_Usage fs_emit)

section \<open>Basic facts\<close>

lemma and_then_Inr: "and_then (Inr x, w) f = f x w"
  by (simp add: and_then_def)

lemma and_then_Inl: "and_then (Inl e, w) f = (Inl e, w)"
  by (simp add: and_then_def)

lemma and_then_eq_Inr:
  "and_then r f = (Inr y, w') \<Longrightarrow> \<exists>x w1. r = (Inr x, w1) \<and> f x w1 = (Inr y, w')"
  by (cases r) (auto simp: and_then_def split: sum.splits)

lemma target_must_exist_Dir: "fs w (target a) = Some Dir \<Longrightarrow> target_must_exist f a w = f a w"
  by (simp add: target_must_exist_def)

lemma fs_target_must_exist_fail:
  "fs w (target a) \<noteq> Some Dir \<Longrightarrow>
     target_must_exist f a w =
       (Inl UsageError, emit (Log CRITICAL ''Error: Target directory doesn't exist'') w)"
  by (auto simp: target_must_exist_def split: option.splits node.splits)

lemma read_dict_wrong_kind:
  "fs w f = Some (Pickle d) \<Longrightarrow> unpacker d = Some k \<Longrightarrow> k \<noteq> t \<Longrightarrow>
     read_dict f (Some t) w =
       (Inl UsageError, emit (Log CRITICAL (''Wrong unpacker used: '' @ k @ '' != '' @ t)) w)"
  by (simp add: read_dict_def)

lemma read_dict_Inr:
  "read_dict f (Some t) w = (Inr d, w') \<Longrightarrow>
     w' = w \<and> fs w f = Some (Pickle d) \<and> unpacker d = Some t"
  by (auto simp: read_dict_def split: option.splits node.splits if_splits)

lemma read_dict_ok:
  "fs w f = Some (Pickle d) \<Longrightarrow> unpacker d = Some t \<Longrightarrow> read_dict f (Some t) w = (Inr d, w)"
  by (simp add: read_dict_def)

lemma fs_read_dict: "fs (snd (read_dict f t w)) = fs w"
  by (auto simp: read_dict_def fs_emit split: option.splits node.splits)

lemma fs_unmount_dirs: "fs (snd (unmount_dirs E root ms w)) = fs w"
  by (induction ms arbitrary: w) (auto simp: Let_def fs_emit)

section \<open>Unmounting: properties\<close>

lemma chroot_unmount_not_mounted:
  "fs w (pjoin tgt ''.reprounzip'') = Some (Pickle d) \<Longrightarrow> unpacker d = Some ''chroot'' \<Longrightarrow>
     mounted d \<noteq> Some True \<Longrightarrow> chroot_unmount E tgt w = (Inr False, w)"
  by (auto simp: chroot_unmount_def read_dict_def and_then_def split: option.splits)

text \<open>What a call of \<^verbatim>\<open>chroot_unmount\<close> that returns has done.\<close>

lemma chroot_unmount_Inr:
  assumes "chroot_unmount E tgt w = (Inr b, w1)"
  shows "\<exists>d. fs w (pjoin tgt ''.reprounzip'') = Some (Pickle d) \<and> unpacker d = Some ''chroot'' \<and>
           (if b then mounted d = Some True \<and>
                   (\<exists>w2. unmount_dirs E (pjoin tgt ''root'') [''/dev'', ''/proc''] w = (Inr (), w2) \<and>
                      w1 = write_dict (pjoin tgt ''.reprounzip'') (d\<lparr>mounted := Some False\<rparr>)
                             ''chroot'' w2)
            else mounted d \<noteq> Some True \<and> w1 = w)"
proof -
  from assms obtain d where
    r: "read_dict (pjoin tgt ''.reprounzip'') (Some ''chroot'') w = (Inr d, w)"
    by (auto simp: chroot_unmount_def dest!: and_then_eq_Inr read_dict_Inr intro: read_dict_ok)
  then have d: "fs w (pjoin tgt ''.reprounzip'') = Some (Pickle d)" "unpacker d = Some ''chroot''"
    by (auto dest: read_dict_Inr)
  show ?thesis
  proof (cases "mounted d = Some True")
    case False
    with assms r d show ?thesis
      by (auto simp: chroot_unmount_def and_then_Inr split: option.splits)
  next
    case True
    with assms r have
      "and_then (unmount_dirs E (pjoin tgt ''root'') [''/dev'', ''/proc''] w)
         (\<lambda>_ w. (Inr True,
            write_dict (pjoin tgt ''.reprounzip'') (d\<lparr>mounted := Some False\<rparr>) ''chroot'' w)) =
       (Inr b, w1)"
      by (simp add: chroot_unmount_def and_then_Inr resolve_def Let_def)
    then have "b \<and> (\<exists>w2. unmount_dirs E (pjoin tgt ''root'') [''/dev'', ''/proc''] w = (Inr (), w2) \<and>
        w1 = write_dict (pjoin tgt ''.reprounzip'') (d\<lparr>mounted := Some False\<rparr>) ''chroot'' w2)"
      by (auto dest!: and_then_eq_Inr)
    with d True show ?thesis by auto
  qed
qed

lemma chroot_unmount_record:
  assumes "chroot_unmount E tgt w = (Inr b, w1)"
  shows "\<exists>d. fs w1 (pjoin tgt ''.reprounzip'') = Some (Pickle d) \<and>
           unpacker d = Some ''chroot'' \<and> mounted d \<noteq> Some True"
proof -
  from chroot_unmount_Inr [OF assms] obtain d where
    d: "fs w (pjoin tgt ''.reprounzip'') = Some (Pickle d)" "unpacker d = Some ''chroot''" and
    c: "if b then mounted d = Some True \<and>
                   (\<exists>w2. unmount_dirs E (pjoin tgt ''root'') [''/dev'', ''/proc''] w = (Inr (), w2) \<and>
                      w1 = write_dict (pjoin tgt ''.reprounzip'') (d\<lparr>mounted := Some False\<rparr>)
                             ''chroot'' w2)
        else mounted d \<noteq> Some True \<and> w1 = w"
    by blast
  show ?thesis
  proof (cases b)
    case True
    with c obtain w2 where
      "w1 = write_dict (pjoin tgt ''.reprounzip'') (d\<lparr>mounted := Some False\<rparr>) ''chroot'' w2"
      by auto
    with d show ?thesis
      by (simp add: write_dict_def write_node_def dict_update_def empty_dict_def)
  next
    case False
    with c d show ?thesis by auto
  qed
qed

lemma mounted_flag_after_unmount:
  "chroot_unmount E tgt w = (Inr b, w1) \<Longrightarrow> \<not> mounted_flag w1 tgt"
proof -
  assume "chroot_unmount E tgt w = (Inr b, w1)"
  from chroot_unmount_record [OF this] obtain d where
    "fs w1 (pjoin tgt ''.reprounzip'') = Some (Pickle d)" "mounted d \<noteq> Some True"
    by blast
  then show ?thesis
    by (cases "mounted d") (simp_all add: mounted_flag_def)
qed

lemma chroot_unmount_Inl:
  assumes "chroot_unmount E tgt w = (Inl e, w')"
  shows "fs w' = fs w"
proof -
  have "fs (snd (chroot_unmount E tgt w)) = fs w \<or> (\<exists>b. fst (chroot_unmount E tgt w) = Inr b)"
  proof (cases "read_dict (pjoin tgt ''.reprounzip'') (Some ''chroot'') w")
    case (Pair r w0)
    have w0: "fs w0 = fs w" using fs_read_dict [of "pjoin tgt ''.reprounzip''" "Some ''chroot''" w] Pair
      by simp
    show ?thesis
    proof (cases r)
      case (Inl e0)
      with Pair w0 show ?thesis by (simp add: chroot_unmount_def and_then_Inl)
    next
      case (Inr d)
      obtain r2 w2 where u: "unmount_dirs E (pjoin tgt ''root'') [''/dev'', ''/proc''] w0 = (r2, w2)"
        by (cases "unmount_dirs E (pjoin tgt ''root'') [''/dev'', ''/proc''] w0")
      have w2: "fs w2 = fs w"
        using fs_unmount_dirs [of E "pjoin tgt ''root''" "[''/dev'', ''/proc'']" w0] u w0 by simp
      from Pair Inr u w0 w2 show ?thesis
        by (cases r2)
           (auto simp add: chroot_unmount_def and_then_Inr and_then_Inl resolve_def Let_def
              simp del: unmount_dirs.simps)
    qed
  qed
  with assms show ?thesis by auto
qed

lemma mounted_flagD:
  "mounted_flag w tgt \<Longrightarrow>
     \<exists>d. fs w (pjoin tgt ''.reprounzip'') = Some (Pickle d) \<and> mounted d = Some True"
  by (auto simp: mounted_flag_def split: option.splits node.splits)

lemma recorded_kindD:
  "recorded_kind w tgt = Some k \<Longrightarrow>
     \<exists>d. fs w (pjoin tgt ''.reprounzip'') = Some (Pickle d) \<and> unpacker d = Some k"
  by (auto simp: recorded_kind_def split: option.splits node.splits)

text \<open>
  The loop over the magic directories. When it returns, it has logged one message and
  started one \<^verbatim>\<open>umount\<close> pipeline for each mount point that exists, in order, every
  pipeline has succeeded, and nothing else has happened. When the pipeline of a mount
  point that exists fails, the loop raises.
\<close>

lemma exists_emit_fun: "exists (emit e w) = exists w"
  by (rule ext) (simp add: exists_def emit_def)

lemma unmount_dirs_Inr:
  "unmount_dirs E root ms w = (Inr (), w2) \<Longrightarrow>
     trace w2 = trace w @ unmount_events (filter (exists w) (map (join_root root) ms)) \<and>
     (\<forall>d \<in> set (filter (exists w) (map (join_root root) ms)). call_ok E (UmountUnder d))"
proof (induction ms arbitrary: w)
  case Nil
  then show ?case by (simp add: unmount_events_def)
next
  case (Cons m ms)
  let ?d = "join_root root m"
  show ?case
  proof (cases "exists w ?d")
    case False
    with Cons.prems have "unmount_dirs E root ms w = (Inr (), w2)"
      by simp
    from Cons.IH [OF this] False show ?thesis
      by simp
  next
    case True
    let ?w = "emit (Call (UmountUnder ?d)) (emit (Log INFO (''Unmounting '' @ ?d @ ''...'')) w)"
    from Cons.prems True have ok: "call_ok E (UmountUnder ?d)"
      by (auto simp add: Let_def split: if_splits)
    with Cons.prems True have "unmount_dirs E root ms ?w = (Inr (), w2)"
      by (simp add: Let_def)
    from Cons.IH [OF this] have
      "trace w2 = trace ?w @ unmount_events (filter (exists w) (map (join_root root) ms))"
      "\<forall>d \<in> set (filter (exists w) (map (join_root root) ms)). call_ok E (UmountUnder d)"
      by (simp_all add: exists_emit_fun)
    with True ok show ?thesis
      by (simp add: unmount_events_def emit_def)
  qed
qed

lemma unmount_dirs_fails:
  "\<exists>m \<in> set ms. exists w (join_root root m) \<and> \<not> call_ok E (UmountUnder (join_root root m)) \<Longrightarrow>
     \<exists>w'. unmount_dirs E root ms w = (Inl CalledProcessError, w')"
proof (induction ms arbitrary: w)
  case Nil
  then show ?case by simp
next
  case (Cons m ms)
  let ?d = "join_root root m"
  let ?w = "emit (Call (UmountUnder ?d)) (emit (Log INFO (''Unmounting '' @ ?d @ ''...'')) w)"
  show ?case
  proof (cases "exists w ?d \<and> \<not> call_ok E (UmountUnder ?d)")
    case True
    then show ?thesis by (simp add: Let_def)
  next
    case False
    with Cons.prems have
      r: "\<exists>m \<in> set ms. exists w (join_root root m) \<and> \<not> call_ok E (UmountUnder (join_root root m))"
      by auto
    show ?thesis
    proof (cases "exists w ?d")
      case True
      from r have "\<exists>m \<in> set ms. exists ?w (join_root root m) \<and>
          \<not> call_ok E (UmountUnder (join_root root m))"
        by (simp add: exists_emit_fun)
      from Cons.IH [OF this] True False show ?thesis
        by (simp add: Let_def)
    next
      case False
      with Cons.IH [OF r] show ?thesis
        by simp
    qed
  qed
qed

text \<open>The same for \<^verbatim>\<open>chroot_unmount\<close> on a chroot target whose record says \<^verbatim>\<open>mounted\<close>.\<close>

lemma chroot_unmount_True:
  assumes "chroot_unmount E tgt w = (Inr True, w1)"
  shows "trace w1 = trace w @ unmount_events (mount_points w tgt)"
    and "\<forall>d \<in> set (mount_points w tgt). call_ok E (UmountUnder d)"
proof -
  from chroot_unmount_Inr [OF assms] obtain d w2 where
    u: "unmount_dirs E (pjoin tgt ''root'') [''/dev'', ''/proc''] w = (Inr (), w2)" and
    w1: "w1 = write_dict (pjoin tgt ''.reprounzip'') (d\<lparr>mounted := Some False\<rparr>) ''chroot'' w2"
    by auto
  from w1 have "trace w1 = trace w2"
    by (simp add: write_dict_def write_node_def)
  with unmount_dirs_Inr [OF u]
  show "trace w1 = trace w @ unmount_events (mount_points w tgt)"
    and "\<forall>d \<in> set (mount_points w tgt). call_ok E (UmountUnder d)"
    by (simp_all add: mount_points_def)
qed

lemma chroot_unmount_fails:
  assumes "fs w (pjoin tgt ''.reprounzip'') = Some (Pickle d)" "unpacker d = Some ''chroot''"
    "mounted d = Some True" "\<exists>p \<in> set (mount_points w tgt). \<not> call_ok E (UmountUnder p)"
  shows "\<exists>w'. chroot_unmount E tgt w = (Inl CalledProcessError, w')"
proof -
  from assms(4) have "\<exists>m \<in> set [''/dev'', ''/proc'']. exists w (join_root (pjoin tgt ''root'') m) \<and>
      \<not> call_ok E (UmountUnder (join_root (pjoin tgt ''root'') m))"
    by (auto simp add: mount_points_def split: if_splits)
  from unmount_dirs_fails [OF this] obtain w' where
    "unmount_dirs E (pjoin tgt ''root'') [''/dev'', ''/proc''] w = (Inl CalledProcessError, w')"
    by blast
  with assms(1-3) show ?thesis
    by (simp add: chroot_unmount_def read_dict_ok and_then_Inr and_then_Inl resolve_def Let_def
        del: unmount_dirs.simps)
qed

text \<open>A call of \<^verbatim>\<open>chroot_unmount\<close> that raises for a failed pipeline was on a mounted target.\<close>

lemma chroot_unmount_failed_mounted:
  assumes "chroot_unmount E tgt w = (Inl CalledProcessError, w1)"
  shows "mounted_flag w tgt"
proof (cases "read_dict (pjoin tgt ''.reprounzip'') (Some ''chroot'') w")
  case (Pair r w0)
  show ?thesis
  proof (cases r)
    case (Inl e0)
    with Pair have "e0 \<noteq> CalledProcessError"
      by (auto simp: read_dict_def split: option.splits node.splits if_splits)
    with Pair Inl assms show ?thesis
      by (simp add: chroot_unmount_def and_then_Inl)
  next
    case (Inr d)
    with Pair have d: "w0 = w" "fs w (pjoin tgt ''.reprounzip'') = Some (Pickle d)"
      by (auto dest: read_dict_Inr)
    have "mounted d = Some True"
    proof (rule ccontr)
      assume "mounted d \<noteq> Some True"
      with Pair Inr d assms show False
        by (auto simp: chroot_unmount_def and_then_Inr split: option.splits)
    qed
    with d show ?thesis
      by (simp add: mounted_flag_def)
  qed
qed

text \<open>
  The command \<^verbatim>\<open>destroy/unmount\<close> turns the value \<^verbatim>\<open>False\<close> into a critical message
  and exit status 1; the command \<^verbatim>\<open>destroy\<close> ignores the value.
\<close>

lemma chroot_destroy_unmount_not_mounted:
  "fs w (target a) = Some Dir \<Longrightarrow> fs w (pjoin (target a) ''.reprounzip'') = Some (Pickle d) \<Longrightarrow>
   unpacker d = Some ''chroot'' \<Longrightarrow> mounted d \<noteq> Some True \<Longrightarrow>
     chroot_destroy_unmount E a w =
       (Inl (SystemExit 1), emit (Log CRITICAL ''Magic directories were not mounted'') w)"
  by (simp add: chroot_destroy_unmount_def target_must_exist_Dir chroot_unmount_not_mounted
      and_then_Inr)

lemma chroot_destroy_not_mounted:
  "fs w (target a) = Some Dir \<Longrightarrow> fs w (pjoin (target a) ''.reprounzip'') = Some (Pickle d) \<Longrightarrow>
   unpacker d = Some ''chroot'' \<Longrightarrow> mounted d \<noteq> Some True \<Longrightarrow>
     chroot_destroy E a w =
       (Inr (), emit (Signal ''post_destroy'')
                  (rmtree_fixed (target a)
                     (emit (Signal ''pre_destroy'')
                        (emit (Log INFO (''Removing directory '' @ target a @ ''...'')) w))))"
  by (simp add: chroot_destroy_def target_must_exist_Dir chroot_unmount_not_mounted
      and_then_Inr Let_def)

text \<open>The example target with the magic directories mounted, unmounted once.\<close>

lemma ex_mounted_unmount:
  "chroot_unmount ex_env ''/t'' ex_mounted =
     (Inr True,
      \<lparr>fs = [''/t'' \<mapsto> Dir,
             ''/t/.reprounzip'' \<mapsto>
               Pickle \<lparr>unpacker = Some ''chroot'', mounted = Some False, up_input_files = None\<rparr>,
             ''/t/root/dev'' \<mapsto> Dir],
       trace = [Log INFO ''Unmounting /t/root/dev...'', Call (UmountUnder ''/t/root/dev'')]\<rparr>)"
  by (simp add: chroot_unmount_def read_dict_def and_then_def ex_mounted_def ex_env_def
      pjoin_def join_root_def is_absolute_def startswith_def resolve_def exists_def emit_def
      write_dict_def write_node_def dict_update_def empty_dict_def Let_def fun_upd_twist)

lemma ex_mounted_unmount_fails:
  "chroot_unmount ex_umount_fails_env ''/t'' ex_mounted =
     (Inl CalledProcessError,
      ex_mounted\<lparr>trace :=
        [Log INFO ''Unmounting /t/root/dev...'', Call (UmountUnder ''/t/root/dev'')]\<rparr>)"
  by (simp add: chroot_unmount_def read_dict_def and_then_def ex_mounted_def ex_env_def
      ex_umount_fails_env_def pjoin_def join_root_def is_absolute_def startswith_def resolve_def
      exists_def emit_def Let_def)

text \<open>
  C7, as stated, fails for the command \<^verbatim>\<open>destroy/unmount\<close>, and the second of two
  calls is not always the no-op. Run on the mounted example target, the command
  returns; run again on the world it left, it logs a critical message and exits with
  status 1, as it does on the example target that was never mounted. And when the
  \<^verbatim>\<open>umount\<close> pipeline fails, \<^verbatim>\<open>chroot_unmount\<close> raises and leaves the record as it was,
  so that the second call starts the pipeline again.
\<close>

theorem unmount_command_twice_fails:
  "fst (chroot_destroy_unmount ex_env ex_args ex_mounted) = Inr () \<and>
   fst (chroot_destroy_unmount ex_env ex_args
          (snd (chroot_destroy_unmount ex_env ex_args ex_mounted))) = Inl (SystemExit 1) \<and>
   levels (snd (chroot_destroy_unmount ex_env ex_args
                  (snd (chroot_destroy_unmount ex_env ex_args ex_mounted)))) =
     [INFO, CRITICAL] \<and>
   \<not> mounted_flag ex_chroot (target ex_args) \<and>
   chroot_destroy_unmount ex_env ex_args ex_chroot =
     (Inl (SystemExit 1), emit (Log CRITICAL ''Magic directories were not mounted'') ex_chroot) \<and>
   exit_status (fst (chroot_destroy_unmount ex_env ex_args ex_chroot)) = 1 \<and>
   fst (chroot_unmount ex_umount_fails_env ''/t'' ex_mounted) = Inl CalledProcessError \<and>
   trace (snd (chroot_unmount ex_umount_fails_env ''/t''
                 (snd (chroot_unmount ex_umount_fails_env ''/t'' ex_mounted)))) =
     [Log INFO ''Unmounting /t/root/dev...'', Call (UmountUnder ''/t/root/dev''),
      Log INFO ''Unmounting /t/root/dev...'', Call (UmountUnder ''/t/root/dev'')]"
proof -
  let ?w = "snd (chroot_unmount ex_env ''/t'' ex_mounted)"
  have t: "target ex_args = ''/t''"
    by (simp add: ex_args_def)
  have dir: "fs ex_mounted ''/t'' = Some Dir"
    by (simp add: ex_mounted_def)
  have 1: "chroot_destroy_unmount ex_env ex_args ex_mounted = (Inr (), ?w)"
    by (simp add: chroot_destroy_unmount_def target_must_exist_Dir t dir ex_mounted_unmount
        and_then_Inr)
  have 2: "chroot_destroy_unmount ex_env ex_args ?w =
      (Inl (SystemExit 1), emit (Log CRITICAL ''Magic directories were not mounted'') ?w)"
    by (rule chroot_destroy_unmount_not_mounted
          [where d = "\<lparr>unpacker = Some ''chroot'', mounted = Some False, up_input_files = None\<rparr>"])
       (simp_all add: t ex_mounted_unmount pjoin_def is_absolute_def startswith_def)
  have 3: "levels (emit (Log CRITICAL ''Magic directories were not mounted'') ?w) =
      [INFO, CRITICAL]"
    by (simp add: ex_mounted_unmount levels_def emit_def)
  have 4: "\<not> mounted_flag ex_chroot (target ex_args)"
    by (simp add: mounted_flag_def ex_chroot_def t pjoin_def is_absolute_def startswith_def)
  have 5: "chroot_destroy_unmount ex_env ex_args ex_chroot =
     (Inl (SystemExit 1), emit (Log CRITICAL ''Magic directories were not mounted'') ex_chroot)"
    by (rule chroot_destroy_unmount_not_mounted
          [where d = "\<lparr>unpacker = Some ''chroot'', mounted = None, up_input_files = None\<rparr>"])
       (simp_all add: t ex_chroot_def pjoin_def is_absolute_def startswith_def)
  have 6: "chroot_unmount ex_umount_fails_env ''/t''
      (ex_mounted\<lparr>trace :=
        [Log INFO ''Unmounting /t/root/dev...'', Call (UmountUnder ''/t/root/dev'')]\<rparr>) =
     (Inl CalledProcessError,
      ex_mounted\<lparr>trace :=
        [Log INFO ''Unmounting /t/root/dev...'', Call (UmountUnder ''/t/root/dev''),
         Log INFO ''Unmounting /t/root/dev...'', Call (UmountUnder ''/t/root/dev'')]\<rparr>)"
    by (simp add: chroot_unmount_def read_dict_def and_then_def ex_mounted_def ex_env_def
        ex_umount_fails_env_def pjoin_def join_root_def is_absolute_def startswith_def resolve_def
        exists_def emit_def Let_def)
  show ?thesis
    by (simp add: 1 2 3 4 5 6 ex_mounted_unmount_fails exit_status_def)
qed

text \<open>
  C7, amended. \<^verbatim>\<open>chroot_unmount\<close> on a chroot target whose record does not say
  \<^verbatim>\<open>mounted\<close> returns \<^verbatim>\<open>False\<close> and leaves the world as it was: no process is started,
  nothing is logged or written, nothing is raised. So after a call that returned, a
  second call returns \<^verbatim>\<open>False\<close> and changes nothing. After a call that raised, every
  file is as it was before, the record among them; if it raised because a \<^verbatim>\<open>umount\<close>
  pipeline failed, the record still says \<^verbatim>\<open>mounted\<close>. On an existing chroot target
  whose record does not say \<^verbatim>\<open>mounted\<close>, the command \<^verbatim>\<open>destroy/unmount\<close> logs one
  critical message and exits with status 1, changing no file, and the command
  \<^verbatim>\<open>destroy\<close> goes on to remove the tree.
\<close>

theorem chroot_unmount_idempotent:
  "(fs w (pjoin tgt ''.reprounzip'') = Some (Pickle d) \<and> unpacker d = Some ''chroot'' \<and>
      mounted d \<noteq> Some True \<longrightarrow> chroot_unmount E tgt w = (Inr False, w)) \<and>
   (chroot_unmount E tgt w = (Inr b, w1) \<longrightarrow> chroot_unmount E tgt w1 = (Inr False, w1)) \<and>
   (chroot_unmount E tgt w = (Inl e, w1) \<longrightarrow>
      fs w1 = fs w \<and> mounted_flag w1 tgt = mounted_flag w tgt \<and>
      (e = CalledProcessError \<longrightarrow> mounted_flag w1 tgt)) \<and>
   (fs w (target a) = Some Dir \<and> fs w (pjoin (target a) ''.reprounzip'') = Some (Pickle d) \<and>
      unpacker d = Some ''chroot'' \<and> mounted d \<noteq> Some True \<longrightarrow>
      chroot_destroy_unmount E a w =
        (Inl (SystemExit 1), emit (Log CRITICAL ''Magic directories were not mounted'') w) \<and>
      exit_status (fst (chroot_destroy_unmount E a w)) = 1 \<and>
      fs (snd (chroot_destroy_unmount E a w)) = fs w \<and>
      chroot_destroy E a w =
        (Inr (), emit (Signal ''post_destroy'')
                   (rmtree_fixed (target a)
                      (emit (Signal ''pre_destroy'')
                         (emit (Log INFO (''Removing directory '' @ target a @ ''...'')) w)))))"
proof (intro conjI impI)
  assume "fs w (pjoin tgt ''.reprounzip'') = Some (Pickle d) \<and> unpacker d = Some ''chroot'' \<and>
      mounted d \<noteq> Some True"
  then show "chroot_unmount E tgt w = (Inr False, w)"
    by (simp add: chroot_unmount_not_mounted)
next
  assume "chroot_unmount E tgt w = (Inr b, w1)"
  from chroot_unmount_record [OF this] show "chroot_unmount E tgt w1 = (Inr False, w1)"
    by (auto intro: chroot_unmount_not_mounted)
next
  assume h: "chroot_unmount E tgt w = (Inl e, w1)"
  from chroot_unmount_Inl [OF h] show f: "fs w1 = fs w" .
  then show m: "mounted_flag w1 tgt = mounted_flag w tgt"
    by (simp add: mounted_flag_def)
  assume "e = CalledProcessError"
  with h have "mounted_flag w tgt"
    by (auto intro: chroot_unmount_failed_mounted)
  with m show "mounted_flag w1 tgt"
    by simp
next
  assume h: "fs w (target a) = Some Dir \<and>
      fs w (pjoin (target a) ''.reprounzip'') = Some (Pickle d) \<and>
      unpacker d = Some ''chroot'' \<and> mounted d \<noteq> Some True"
  then have u: "chroot_destroy_unmount E a w =
      (Inl (SystemExit 1), emit (Log CRITICAL ''Magic directories were not mounted'') w)"
    by (simp add: chroot_destroy_unmount_not_mounted)
  then show "chroot_destroy_unmount E a w =
      (Inl (SystemExit 1), emit (Log CRITICAL ''Magic directories were not mounted'') w)" .
  from u show "exit_status (fst (chroot_destroy_unmount E a w)) = 1"
    by (simp add: exit_status_def)
  from u show "fs (snd (chroot_destroy_unmount E a w)) = fs w"
    by (simp add: fs_emit)
  from h show "chroot_destroy E a w =
      (Inr (), emit (Signal ''post_destroy'')
                 (rmtree_fixed (target a)
                    (emit (Signal ''pre_destroy'')
                       (emit (Log INFO (''Removing directory '' @ target a @ ''...'')) w))))"
    by (simp add: chroot_destroy_not_mounted)
qed

theorem chroot_unmount_idempotent_witness:
  "fst (chroot_unmount ex_env ''/t'' ex_mounted) = Inr True \<and>
   trace (snd (chroot_unmount ex_env ''/t'' ex_mounted)) =
     [Log INFO ''Unmounting /t/root/dev...'', Call (UmountUnder ''/t/root/dev'')] \<and>
   chroot_unmount ex_env ''/t'' (snd (chroot_unmount ex_env ''/t'' ex_mounted)) =
     (Inr False, snd (chroot_unmount ex_env ''/t'' ex_mounted)) \<and>
   chroot_unmount ex_env ''/t'' ex_chroot = (Inr False, ex_chroot) \<and>
   fst (chroot_unmount ex_umount_fails_env ''/t'' ex_mounted) = Inl CalledProcessError \<and>
   fs (snd (chroot_unmount ex_umount_fails_env ''/t'' ex_mounted)) = fs ex_mounted \<and>
   mounted_flag (snd (chroot_unmount ex_umount_fails_env ''/t'' ex_mounted)) ''/t'' \<and>
   fs ex_chroot (target ex_args) = Some Dir \<and>
   chroot_destroy_unmount ex_env ex_args ex_chroot =
     (Inl (SystemExit 1), emit (Log CRITICAL ''Magic directories were not mounted'') ex_chroot) \<and>
   exit_status (fst (chroot_destroy_unmount ex_env ex_args ex_chroot)) = 1 \<and>
   fst (chroot_destroy ex_env ex_args ex_chroot) = Inr () \<and>
   fs (snd (chroot_destroy ex_env ex_args ex_chroot)) ''/t'' = None"
proof -
  let ?d = "\<lparr>unpacker = Some ''chroot'', mounted = None, up_input_files = None\<rparr>"
  let ?wa = "snd (chroot_unmount ex_env ''/t'' ex_mounted)"
  let ?wb = "snd (chroot_unmount ex_umount_fails_env ''/t'' ex_mounted)"
  have t: "target ex_args = ''/t''"
    by (simp add: ex_args_def)
  have a: "chroot_unmount ex_env ''/t'' ex_mounted = (Inr True, ?wa)"
    by (simp add: ex_mounted_unmount)
  have b: "trace ?wa =
     [Log INFO ''Unmounting /t/root/dev...'', Call (UmountUnder ''/t/root/dev'')]"
    by (simp add: ex_mounted_unmount)
  have c: "chroot_unmount ex_umount_fails_env ''/t'' ex_mounted = (Inl CalledProcessError, ?wb)"
    by (simp add: ex_mounted_unmount_fails)
  have d: "fs ex_chroot (pjoin ''/t'' ''.reprounzip'') = Some (Pickle ?d) \<and>
      unpacker ?d = Some ''chroot'' \<and> mounted ?d \<noteq> Some True"
    "fs ex_chroot (target ex_args) = Some Dir \<and>
      fs ex_chroot (pjoin (target ex_args) ''.reprounzip'') = Some (Pickle ?d) \<and>
      unpacker ?d = Some ''chroot'' \<and> mounted ?d \<noteq> Some True"
    by (simp_all add: ex_chroot_def t pjoin_def is_absolute_def startswith_def)
  have 1: "chroot_unmount ex_env ''/t'' ?wa = (Inr False, ?wa)"
    using chroot_unmount_idempotent
      [of ex_mounted "''/t''" undefined ex_env True ?wa undefined ex_args] a
    by blast
  have 2: "chroot_unmount ex_env ''/t'' ex_chroot = (Inr False, ex_chroot)"
    using chroot_unmount_idempotent
      [of ex_chroot "''/t''" ?d ex_env undefined undefined undefined ex_args] d
    by blast
  have 3: "fs ?wb = fs ex_mounted \<and> mounted_flag ?wb ''/t''"
    using chroot_unmount_idempotent
      [of ex_mounted "''/t''" undefined ex_umount_fails_env undefined ?wb CalledProcessError
        ex_args] c
    by blast
  have 4: "chroot_destroy_unmount ex_env ex_args ex_chroot =
        (Inl (SystemExit 1), emit (Log CRITICAL ''Magic directories were not mounted'') ex_chroot) \<and>
      exit_status (fst (chroot_destroy_unmount ex_env ex_args ex_chroot)) = 1 \<and>
      chroot_destroy ex_env ex_args ex_chroot =
        (Inr (), emit (Signal ''post_destroy'')
                   (rmtree_fixed (target ex_args)
                      (emit (Signal ''pre_destroy'')
                         (emit (Log INFO (''Removing directory '' @ target ex_args @ ''...''))
                            ex_chroot))))"
    using chroot_unmount_idempotent
      [of ex_chroot "''/t''" ?d ex_env undefined undefined undefined ex_args] d
    by blast
  then have 5: "fst (chroot_destroy ex_env ex_args ex_chroot) = Inr ()"
    "fs (snd (chroot_destroy ex_env ex_args ex_chroot)) ''/t'' = None"
    by (simp_all add: fs_emit rmtree_fixed_def t)
  have a': "fst (chroot_unmount ex_env ''/t'' ex_mounted) = Inr True"
    by (simp add: ex_mounted_unmount)
  have c': "fst (chroot_unmount ex_umount_fails_env ''/t'' ex_mounted) = Inl CalledProcessError"
    by (simp add: ex_mounted_unmount_fails)
  from d(2) have dir: "fs ex_chroot (target ex_args) = Some Dir"
    by simp
  from a' b c' dir 1 2 3 4 5 show ?thesis
    by (simp add: exit_status_def)
qed

section \<open>Destroying: properties\<close>

text \<open>
  C4. While the record of a chroot target says \<^verbatim>\<open>mounted\<close>: \<^verbatim>\<open>chroot_destroy_dir\<close>
  raises, with an exit status that is not zero, and leaves every file in place; on a
  target of kind \<^verbatim>\<open>chroot\<close> it logs a critical message and exits with status 1. When
  \<^verbatim>\<open>chroot_destroy\<close> returns, the unmount step has been performed before: \<^verbatim>\<open>chroot_unmount\<close>
  has returned \<^verbatim>\<open>True\<close>, after starting one \<^verbatim>\<open>umount\<close> pipeline for each magic directory
  of the target that exists, every one of which succeeded, and the tree is removed from
  the world that the unmount step left, in which the record no longer says
  \<^verbatim>\<open>mounted\<close>; so the trace of the command is the messages and calls of the unmount
  step followed by the removal. When a pipeline fails, \<^verbatim>\<open>chroot_destroy\<close> raises; and
  whenever \<^verbatim>\<open>chroot_destroy\<close> raises, every file is in place.
\<close>

theorem mounted_target_not_deleted:
  assumes "mounted_flag w (target a)"
  shows
    "(\<exists>e w'. chroot_destroy_dir a w = (Inl e, w') \<and> exit_status (Inl e :: error + unit) \<noteq> 0 \<and>
        fs w' = fs w) \<and>
     (fs w (target a) = Some Dir \<and> recorded_kind w (target a) = Some ''chroot'' \<longrightarrow>
        chroot_destroy_dir a w =
          (Inl (SystemExit 1), emit (Log CRITICAL ''Magic directories might still be mounted'') w)) \<and>
     (\<forall>w'. chroot_destroy E a w = (Inr (), w') \<longrightarrow>
        (\<exists>w1. chroot_unmount E (target a) w = (Inr True, w1) \<and> \<not> mounted_flag w1 (target a) \<and>
           w' = emit (Signal ''post_destroy'')
                  (rmtree_fixed (target a)
                     (emit (Signal ''pre_destroy'')
                        (emit (Log INFO (''Removing directory '' @ target a @ ''...'')) w1))) \<and>
           trace w1 = trace w @ unmount_events (mount_points w (target a)) \<and>
           (\<forall>p \<in> set (mount_points w (target a)). call_ok E (UmountUnder p)) \<and>
           trace w' =
             trace w @ unmount_events (mount_points w (target a)) @
             [Log INFO (''Removing directory '' @ target a @ ''...''), Signal ''pre_destroy'',
              Signal ''post_destroy''])) \<and>
     (fs w (target a) = Some Dir \<and> recorded_kind w (target a) = Some ''chroot'' \<and>
      (\<exists>p \<in> set (mount_points w (target a)). \<not> call_ok E (UmountUnder p)) \<longrightarrow>
        (\<exists>w'. chroot_destroy E a w = (Inl CalledProcessError, w'))) \<and>
     (\<forall>e w'. chroot_destroy E a w = (Inl e, w') \<longrightarrow> fs w' = fs w)"
proof -
  from mounted_flagD [OF assms] obtain d where
    d: "fs w (pjoin (target a) ''.reprounzip'') = Some (Pickle d)" "mounted d = Some True"
    by blast
  have 1: "\<exists>e w'. chroot_destroy_dir a w = (Inl e, w') \<and> exit_status (Inl e :: error + unit) \<noteq> 0 \<and>
        fs w' = fs w"
  proof (cases "fs w (target a) = Some Dir")
    case False
    then show ?thesis
      by (simp add: chroot_destroy_dir_def fs_target_must_exist_fail exit_status_def fs_emit)
  next
    case True
    with d show ?thesis
      by (cases "unpacker d")
         (simp_all add: chroot_destroy_dir_def target_must_exist_Dir read_dict_def and_then_def
            exit_status_def fs_emit)
  qed
  have 2: "fs w (target a) = Some Dir \<and> recorded_kind w (target a) = Some ''chroot'' \<longrightarrow>
        chroot_destroy_dir a w =
          (Inl (SystemExit 1), emit (Log CRITICAL ''Magic directories might still be mounted'') w)"
    using d
    by (auto simp: chroot_destroy_dir_def target_must_exist_Dir read_dict_ok and_then_Inr
          dest!: recorded_kindD)
  have 3: "\<exists>w1. chroot_unmount E (target a) w = (Inr True, w1) \<and> \<not> mounted_flag w1 (target a) \<and>
           w' = emit (Signal ''post_destroy'')
                  (rmtree_fixed (target a)
                     (emit (Signal ''pre_destroy'')
                        (emit (Log INFO (''Removing directory '' @ target a @ ''...'')) w1))) \<and>
           trace w1 = trace w @ unmount_events (mount_points w (target a)) \<and>
           (\<forall>p \<in> set (mount_points w (target a)). call_ok E (UmountUnder p)) \<and>
           trace w' =
             trace w @ unmount_events (mount_points w (target a)) @
             [Log INFO (''Removing directory '' @ target a @ ''...''), Signal ''pre_destroy'',
              Signal ''post_destroy'']"
    if h: "chroot_destroy E a w = (Inr (), w')" for w'
  proof -
    have t: "fs w (target a) = Some Dir"
    proof (rule ccontr)
      assume "fs w (target a) \<noteq> Some Dir"
      with h show False by (simp add: chroot_destroy_def fs_target_must_exist_fail)
    qed
    with h have "and_then (chroot_unmount E (target a) w)
         (\<lambda>_ w. (Inr (), emit (Signal ''post_destroy'')
                  (rmtree_fixed (target a)
                     (emit (Signal ''pre_destroy'')
                        (emit (Log INFO (''Removing directory '' @ target a @ ''...'')) w))))) =
        (Inr (), w')"
      by (simp add: chroot_destroy_def target_must_exist_Dir Let_def)
    then obtain b w1 where
      u: "chroot_unmount E (target a) w = (Inr b, w1)" and
      w': "w' = emit (Signal ''post_destroy'')
                  (rmtree_fixed (target a)
                     (emit (Signal ''pre_destroy'')
                        (emit (Log INFO (''Removing directory '' @ target a @ ''...'')) w1)))"
      by (auto dest!: and_then_eq_Inr)
    from chroot_unmount_Inr [OF u] d have "b" by (auto split: if_splits)
    with u have u': "chroot_unmount E (target a) w = (Inr True, w1)"
      by simp
    note tr = chroot_unmount_True [OF u']
    have "trace w' =
        trace w1 @ [Log INFO (''Removing directory '' @ target a @ ''...''),
                    Signal ''pre_destroy'', Signal ''post_destroy'']"
      by (simp add: w' emit_def rmtree_fixed_def)
    with tr u' w' mounted_flag_after_unmount [OF u'] show ?thesis
      by simp
  qed
  have 4: "\<exists>w'. chroot_destroy E a w = (Inl CalledProcessError, w')"
    if h: "fs w (target a) = Some Dir \<and> recorded_kind w (target a) = Some ''chroot'' \<and>
      (\<exists>p \<in> set (mount_points w (target a)). \<not> call_ok E (UmountUnder p))"
  proof -
    from h d have k: "unpacker d = Some ''chroot''"
      by (auto dest!: recorded_kindD)
    from h have "\<exists>p \<in> set (mount_points w (target a)). \<not> call_ok E (UmountUnder p)"
      by simp
    from chroot_unmount_fails [OF d(1) k d(2) this] obtain w' where
      "chroot_unmount E (target a) w = (Inl CalledProcessError, w')"
      by blast
    with h show ?thesis
      by (simp add: chroot_destroy_def target_must_exist_Dir and_then_Inl)
  qed
  have 5: "fs w' = fs w" if h: "chroot_destroy E a w = (Inl e, w')" for e w'
  proof (cases "fs w (target a) = Some Dir")
    case False
    with h show ?thesis by (auto simp: chroot_destroy_def fs_target_must_exist_fail fs_emit)
  next
    case True
    obtain r w1 where u: "chroot_unmount E (target a) w = (r, w1)"
      by (cases "chroot_unmount E (target a) w")
    with h True show ?thesis
      by (cases r)
         (auto simp: chroot_destroy_def target_must_exist_Dir and_then_Inl and_then_Inr Let_def
            dest: chroot_unmount_Inl)
  qed
  from 1 2 3 4 5 show ?thesis by blast
qed

theorem mounted_target_not_deleted_witness:
  "mounted_flag ex_mounted (target ex_args) \<and>
   chroot_destroy_dir ex_args ex_mounted =
     (Inl (SystemExit 1),
      emit (Log CRITICAL ''Magic directories might still be mounted'') ex_mounted) \<and>
   fst (chroot_destroy ex_env ex_args ex_mounted) = Inr () \<and>
   fst (chroot_unmount ex_env (target ex_args) ex_mounted) = Inr True \<and>
   \<not> mounted_flag (snd (chroot_unmount ex_env (target ex_args) ex_mounted)) (target ex_args) \<and>
   mount_points ex_mounted (target ex_args) = [''/t/root/dev''] \<and>
   call_ok ex_env (UmountUnder ''/t/root/dev'') \<and>
   trace (snd (chroot_destroy ex_env ex_args ex_mounted)) =
     [Log INFO ''Unmounting /t/root/dev...'', Call (UmountUnder ''/t/root/dev''),
      Log INFO ''Removing directory /t...'', Signal ''pre_destroy'', Signal ''post_destroy''] \<and>
   fs (snd (chroot_destroy ex_env ex_args ex_mounted)) ''/t'' = None \<and>
   \<not> call_ok ex_umount_fails_env (UmountUnder ''/t/root/dev'') \<and>
   fst (chroot_destroy ex_umount_fails_env ex_args ex_mounted) = Inl CalledProcessError \<and>
   fs (snd (chroot_destroy ex_umount_fails_env ex_args ex_mounted)) = fs ex_mounted"
proof -
  have ta: "target ex_args = ''/t''"
    by (simp add: ex_args_def)
  have m: "mounted_flag ex_mounted (target ex_args)"
    by (simp add: mounted_flag_def ex_mounted_def ex_args_def pjoin_def is_absolute_def
        startswith_def)
  have t: "fs ex_mounted (target ex_args) = Some Dir \<and>
      recorded_kind ex_mounted (target ex_args) = Some ''chroot''"
    by (simp add: recorded_kind_def ex_mounted_def ex_args_def pjoin_def is_absolute_def
        startswith_def)
  have p: "mount_points ex_mounted (target ex_args) = [''/t/root/dev'']"
    by (simp add: mount_points_def ex_mounted_def ex_args_def pjoin_def join_root_def
        is_absolute_def startswith_def exists_def)
  have k: "call_ok ex_env (UmountUnder ''/t/root/dev'')"
    "\<not> call_ok ex_umount_fails_env (UmountUnder ''/t/root/dev'')"
    by (simp_all add: ex_env_def ex_umount_fails_env_def)
  have u: "fst (chroot_unmount ex_env (target ex_args) ex_mounted) = Inr True"
    by (simp add: ta ex_mounted_unmount)
  have dir: "fs ex_mounted ''/t'' = Some Dir"
    by (simp add: ex_mounted_def)
  have d: "fst (chroot_destroy ex_env ex_args ex_mounted) = Inr ()"
    by (simp add: chroot_destroy_def target_must_exist_Dir ta dir ex_mounted_unmount
        and_then_Inr Let_def)
  then have e: "chroot_destroy ex_env ex_args ex_mounted =
      (Inr (), snd (chroot_destroy ex_env ex_args ex_mounted))"
    by (simp add: prod_eq_iff)
  note main = mounted_target_not_deleted [OF m, of ex_env]
  from main t have c2: "chroot_destroy_dir ex_args ex_mounted =
     (Inl (SystemExit 1),
      emit (Log CRITICAL ''Magic directories might still be mounted'') ex_mounted)"
    by blast
  from main e obtain w1 where
    w1: "chroot_unmount ex_env (target ex_args) ex_mounted = (Inr True, w1)"
      "\<not> mounted_flag w1 (target ex_args)" and
    s: "snd (chroot_destroy ex_env ex_args ex_mounted) =
          emit (Signal ''post_destroy'')
            (rmtree_fixed (target ex_args)
               (emit (Signal ''pre_destroy'')
                  (emit (Log INFO (''Removing directory '' @ target ex_args @ ''...'')) w1)))" and
    tr: "trace (snd (chroot_destroy ex_env ex_args ex_mounted)) =
          trace ex_mounted @ unmount_events (mount_points ex_mounted (target ex_args)) @
          [Log INFO (''Removing directory '' @ target ex_args @ ''...''), Signal ''pre_destroy'',
           Signal ''post_destroy'']"
    by blast
  have c4: "fs (snd (chroot_destroy ex_env ex_args ex_mounted)) ''/t'' = None"
    unfolding s by (simp add: fs_emit rmtree_fixed_def ex_args_def)
  from w1 have c3: "\<not> mounted_flag (snd (chroot_unmount ex_env (target ex_args) ex_mounted))
      (target ex_args)"
    by simp
  from tr have c5: "trace (snd (chroot_destroy ex_env ex_args ex_mounted)) =
     [Log INFO ''Unmounting /t/root/dev...'', Call (UmountUnder ''/t/root/dev''),
      Log INFO ''Removing directory /t...'', Signal ''pre_destroy'', Signal ''post_destroy'']"
    by (simp add: p unmount_events_def) (simp add: ta ex_mounted_def)
  note fails = mounted_target_not_deleted [OF m, of ex_umount_fails_env]
  from p k(2) have "\<exists>p \<in> set (mount_points ex_mounted (target ex_args)).
      \<not> call_ok ex_umount_fails_env (UmountUnder p)"
    by simp
  with fails t obtain w' where
    f: "chroot_destroy ex_umount_fails_env ex_args ex_mounted = (Inl CalledProcessError, w')"
    by blast
  with fails have "fs w' = fs ex_mounted"
    by blast
  with f have c6: "fst (chroot_destroy ex_umount_fails_env ex_args ex_mounted) =
      Inl CalledProcessError"
    "fs (snd (chroot_destroy ex_umount_fails_env ex_args ex_mounted)) = fs ex_mounted"
    by simp_all
  from m c2 d u c3 p k c5 c4 c6 show ?thesis by simp
qed

section \<open>A command against a target of another kind\<close>

lemma wrong_kind_read_dict:
  assumes "recorded_kind w tgt = Some k" "k \<noteq> u"
  shows "read_dict (pjoin tgt ''.reprounzip'') (Some u) w =
           (Inl UsageError, emit (Log CRITICAL (''Wrong unpacker used: '' @ k @ '' != '' @ u)) w)"
  using assms by (auto dest!: recorded_kindD simp: read_dict_wrong_kind)

lemma wrong_kind_chroot_unmount:
  assumes "recorded_kind w tgt = Some k" "k \<noteq> ''chroot''"
  shows "chroot_unmount E tgt w =
           (Inl UsageError,
            emit (Log CRITICAL (''Wrong unpacker used: '' @ k @ '' != '' @ ''chroot'')) w)"
  by (simp add: chroot_unmount_def wrong_kind_read_dict [OF assms] and_then_Inl)

text \<open>
  C3. Every action of an unpacker other than the setup of a new target, run on an
  existing target whose record holds another kind, raises \<open>UsageError\<close> after one
  critical message: no file is changed, no process is started, nothing else is logged
  or sent, and the exit status is not zero.
\<close>

theorem wrong_kind_usage_error:
  assumes "dispatch u act = Some f"
    and "\<not> creates_target act"
    and "fs w (target a) = Some Dir"
    and "recorded_kind w (target a) = Some k"
    and "k \<noteq> u"
  shows "f E U a w =
           (Inl UsageError, emit (Log CRITICAL (''Wrong unpacker used: '' @ k @ '' != '' @ u)) w) \<and>
         exit_status (fst (f E U a w)) \<noteq> 0"
proof -
  note r = wrong_kind_read_dict [OF assms(4)] wrong_kind_chroot_unmount [OF assms(4)]
  have t: "target_must_exist g a w = g a w" "target_must_exist g (a\<lparr>utype := x\<rparr>) w = g (a\<lparr>utype := x\<rparr>) w"
    for g :: "args \<Rightarrow> world \<Rightarrow> unit result" and x
    using assms(3) by (simp_all add: target_must_exist_Dir)
  have "f E U a w =
           (Inl UsageError, emit (Log CRITICAL (''Wrong unpacker used: '' @ k @ '' != '' @ u)) w)"
  proof (cases "u = ''directory''")
    case True
    with assms(1,2,5) show ?thesis
      by (cases act)
         (auto simp: dispatch_def creates_target_def upload_def directory_run_def download_def
            directory_destroy_def t r and_then_Inl)
  next
    case False
    with assms(1) have u: "u = ''chroot''"
      by (auto simp: dispatch_def split: if_splits)
    with assms(1,2,5) show ?thesis
      by (cases act)
         (auto simp: dispatch_def creates_target_def upload_def chroot_run_def download_def
            chroot_mount_def chroot_destroy_unmount_def chroot_destroy_dir_def chroot_destroy_def
            t r and_then_Inl)
  qed
  then show ?thesis by (simp add: exit_status_def)
qed

theorem wrong_kind_usage_error_witness:
  "dispatch ''chroot'' DestroyDir = Some (\<lambda>E U a. chroot_destroy_dir a) \<and>
   \<not> creates_target DestroyDir \<and>
   fs ex_directory (target ex_args) = Some Dir \<and>
   recorded_kind ex_directory (target ex_args) = Some ''directory'' \<and>
   chroot_destroy_dir ex_args ex_directory =
     (Inl UsageError,
      emit (Log CRITICAL ''Wrong unpacker used: directory != chroot'') ex_directory)"
proof -
  have 1: "dispatch ''chroot'' DestroyDir = Some (\<lambda>E U a. chroot_destroy_dir a)"
    by (simp add: dispatch_def)
  have 2: "\<not> creates_target DestroyDir"
    by (simp add: creates_target_def)
  have 3: "fs ex_directory (target ex_args) = Some Dir"
    by (simp add: ex_directory_def ex_args_def)
  have 4: "recorded_kind ex_directory (target ex_args) = Some ''directory''"
    by (simp add: recorded_kind_def ex_directory_def ex_args_def pjoin_def is_absolute_def startswith_def)
  have 5: "''directory'' \<noteq> ''chroot''"
    by simp
  from wrong_kind_usage_error [OF 1 2 3 4 5] 1 2 3 4 show ?thesis
    by simp
qed

section \<open>Upload: the record is written back\<close>

lemma dict_update_same_kind:
  "unpacker d = Some t \<Longrightarrow> dict_update (empty_dict\<lparr>unpacker := Some t\<rparr>) d = d"
  by (cases d) (simp add: dict_update_def empty_dict_def split: option.splits)

text \<open>
  C10, as stated, fails: \<^verbatim>\<open>upload\<close> reads the record before the \<^verbatim>\<open>try\<close> statement, so
  the exit through \<open>UsageError\<close> on a target of another kind writes nothing. Here a
  chroot upload on a directory target ends with the world as it was but for one
  message; the record still lacks the key \<^verbatim>\<open>input_files\<close> that a write would have stored.
\<close>

theorem upload_wrong_kind_no_write:
  "upload ex_failing_uploader ex_args ex_directory =
     (Inl UsageError,
      emit (Log CRITICAL ''Wrong unpacker used: directory != chroot'') ex_directory) \<and>
   fs (snd (upload ex_failing_uploader ex_args ex_directory)) ''/t/.reprounzip'' =
     Some (Pickle \<lparr>unpacker = Some ''directory'', mounted = None, up_input_files = None\<rparr>)"
  by (simp add: upload_def target_must_exist_def read_dict_def and_then_def ex_directory_def
      ex_args_def pjoin_def is_absolute_def startswith_def emit_def)

text \<open>
  C10, amended. Once \<^verbatim>\<open>upload\<close> has read the record of an existing target of the expected kind,
  it writes the record back whatever the uploader does: whether the uploader returns
  or raises \<open>r\<close>, \<^verbatim>\<open>upload\<close> ends the same way, and by then the file holds the whole
  record, with the kind and \<^verbatim>\<open>mounted\<close> as read and \<^verbatim>\<open>input_files\<close> as the uploader
  left it, in the world the uploader left.
\<close>

theorem upload_writes_record:
  assumes "fs w (target a) = Some Dir"
    and "fs w (pjoin (target a) ''.reprounzip'') = Some (Pickle d)"
    and "unpacker d = Some (utype a)"
    and "U (target a) (case up_input_files d of None \<Rightarrow> [] | Some i \<Rightarrow> i) (filespecs a)
           (utype a) (if utype a = ''chroot'' then restore_owner a else Some False) w =
         (r, ifs, w1)"
  shows "upload U a w =
           (r, write_node (pjoin (target a) ''.reprounzip'')
                 (Pickle (d\<lparr>up_input_files := Some ifs\<rparr>)) w1) \<and>
         fs (snd (upload U a w)) (pjoin (target a) ''.reprounzip'') =
           Some (Pickle \<lparr>unpacker = Some (utype a), mounted = mounted d,
                         up_input_files = Some ifs\<rparr>)"
proof -
  have k: "unpacker (d\<lparr>up_input_files := Some ifs\<rparr>) = Some (utype a)"
    using assms(3) by simp
  have "upload U a w =
           (r, write_node (pjoin (target a) ''.reprounzip'')
                 (Pickle (d\<lparr>up_input_files := Some ifs\<rparr>)) w1)"
    using assms
    by (simp add: upload_def target_must_exist_Dir read_dict_ok and_then_Inr write_dict_def
        dict_update_same_kind [OF k])
  moreover have "d\<lparr>up_input_files := Some ifs\<rparr> =
      \<lparr>unpacker = Some (utype a), mounted = mounted d, up_input_files = Some ifs\<rparr>"
    using assms(3) by (cases d) simp
  ultimately show ?thesis
    by (simp add: write_node_def)
qed

theorem upload_writes_record_witness:
  "fst (upload ex_failing_uploader ex_args ex_mounted) = Inl KeyError \<and>
   fs (snd (upload ex_failing_uploader ex_args ex_mounted)) ''/t/.reprounzip'' =
     Some (Pickle \<lparr>unpacker = Some ''chroot'', mounted = Some True,
                   up_input_files = Some [(''in'', ''/home/user/in.txt'')]\<rparr>)"
proof -
  have 1: "fs ex_mounted (target ex_args) = Some Dir"
    by (simp add: ex_mounted_def ex_args_def)
  have 2: "fs ex_mounted (pjoin (target ex_args) ''.reprounzip'') =
      Some (Pickle \<lparr>unpacker = Some ''chroot'', mounted = Some True, up_input_files = None\<rparr>)"
    by (simp add: ex_mounted_def ex_args_def pjoin_def is_absolute_def startswith_def)
  have 3: "unpacker \<lparr>unpacker = Some ''chroot'', mounted = Some True, up_input_files = None\<rparr> =
      Some (utype ex_args)"
    by (simp add: ex_args_def)
  have 4: "ex_failing_uploader (target ex_args)
      (case up_input_files
              \<lparr>unpacker = Some ''chroot'', mounted = Some True, up_input_files = None\<rparr> of
         None \<Rightarrow> [] | Some i \<Rightarrow> i)
      (filespecs ex_args) (utype ex_args)
      (if utype ex_args = ''chroot'' then restore_owner ex_args else Some False) ex_mounted =
      (Inl KeyError, [(''in'', ''/home/user/in.txt'')], emit (Log ERROR ''failed'') ex_mounted)"
    by (simp add: ex_failing_uploader_def)
  from upload_writes_record [where U = ex_failing_uploader and a = ex_args and w = ex_mounted,
      OF 1 2 3 4]
  show ?thesis
    by (simp add: ex_args_def pjoin_def is_absolute_def startswith_def write_node_def)
qed

section \<open>Rewriting the arguments of a run\<close>

lemma rewrite_args_step:
  "rewrite_args E w root i av r =
     (if i < length av then
        (if spec_rewrites E w root (av ! i)
         then rewrite_args E w root (Suc i) (av[i := join_root root (av ! i)]) True
         else rewrite_args E w root (Suc i) av r)
      else (av, r))"
  by (subst rewrite_args.simps) (auto simp: spec_rewrites_def Let_def)

lemma rewrite_args_eq:
  "i \<le> length av \<Longrightarrow>
   rewrite_args E w root i av r =
     (take i av @ map (spec_rewritten E w root) (drop i av),
      r \<or> list_ex (spec_rewrites E w root) (drop i av))"
proof (induction n \<equiv> "length av - i" arbitrary: i av r)
  case 0
  then show ?case by (subst rewrite_args_step) simp
next
  case (Suc n)
  then have lt: "i < length av" by simp
  then have d: "drop i av = av ! i # drop (Suc i) av"
    by (simp add: Cons_nth_drop_Suc)
  show ?case
  proof (cases "spec_rewrites E w root (av ! i)")
    case False
    have "rewrite_args E w root i av r = rewrite_args E w root (Suc i) av r"
      using lt False by (subst rewrite_args_step) simp
    also have "\<dots> = (take (Suc i) av @ map (spec_rewritten E w root) (drop (Suc i) av),
        r \<or> list_ex (spec_rewrites E w root) (drop (Suc i) av))"
      using Suc.hyps(2) lt by (intro Suc.hyps(1)) simp_all
    finally show ?thesis
      using False lt by (simp add: d take_Suc_conv_app_nth spec_rewritten_def)
  next
    case True
    let ?av = "av[i := join_root root (av ! i)]"
    have "rewrite_args E w root i av r = rewrite_args E w root (Suc i) ?av True"
      using lt True by (subst rewrite_args_step) simp
    also have "\<dots> = (take (Suc i) ?av @ map (spec_rewritten E w root) (drop (Suc i) ?av),
        True \<or> list_ex (spec_rewrites E w root) (drop (Suc i) ?av))"
      using Suc.hyps(2) lt by (intro Suc.hyps(1)) simp_all
    finally show ?thesis
      using True lt by (simp add: d take_Suc_conv_app_nth spec_rewritten_def)
  qed
qed

lemma rewrite_args_0:
  "rewrite_args E w root 0 av False =
     (map (spec_rewritten E w root) av, list_ex (spec_rewrites E w root) av)"
  by (simp add: rewrite_args_eq)

text \<open>
  C8, as stated, fails for the chroot run: \<^verbatim>\<open>chroot_run\<close> rewrites no argument. Here
  the first argument parses as an absolute path and its translated candidate exists in
  the target, and the command line that is run still names \<^verbatim>\<open>/usr/bin/prog\<close>.
\<close>

theorem chroot_run_does_not_rewrite:
  "cmdline ex_args = None \<and>
   spec_rewrites ex_env ex_chroot (pjoin (target ex_args) ''root'') ''/usr/bin/prog'' \<and>
   chroot_argv ex_args ex_run = [''/usr/bin/prog'', ''-o'', ''/out/result.txt''] \<and>
   fst (chroot_run ex_env ex_args ex_chroot) = Inr () \<and>
   trace (snd (chroot_run ex_env ex_args ex_chroot)) =
     [Signal ''pre_run'',
      Call (Shell (''chroot --userspec=1000:1000 /t/root /bin/sh -c '' @
                   ''cd /home/user && /usr/bin/env -i PATH=/usr/bin '' @
                   ''/usr/bin/prog -o /out/result.txt'')),
      Status 0, Signal ''post_run'']"
proof -
  have 1: "cmdline ex_args = None"
    by (simp add: ex_args_def)
  have 2: "spec_rewrites ex_env ex_chroot (pjoin (target ex_args) ''root'') ''/usr/bin/prog''"
    by (simp add: spec_rewrites_def ex_env_def ex_chroot_def ex_args_def pjoin_def
        join_root_def is_absolute_def startswith_def exists_def)
  have 3: "chroot_argv ex_args ex_run = [''/usr/bin/prog'', ''-o'', ''/out/result.txt'']"
    by (simp add: chroot_argv_def ex_args_def ex_run_def)
  have c: "chroot_run_cmd ex_env ex_args ''/t/root''
             \<lparr>fix_env = (\<lambda>e. e), init_cmds = [], port_forward = []\<rparr> ex_run =
           ''chroot --userspec=1000:1000 /t/root /bin/sh -c '' @
           ''cd /home/user && /usr/bin/env -i PATH=/usr/bin '' @
           ''/usr/bin/prog -o /out/result.txt''"
    by (simp add: chroot_run_cmd_def 3 Let_def) (simp add: ex_run_def ex_env_def)
  have r: "chroot_run ex_env ex_args ex_chroot =
      call_and_report ex_env ''/t''
        (''chroot --userspec=1000:1000 /t/root /bin/sh -c '' @
         ''cd /home/user && /usr/bin/env -i PATH=/usr/bin '' @
         ''/usr/bin/prog -o /out/result.txt'') ex_chroot"
    using c
    by (simp add: chroot_run_def target_must_exist_def read_dict_def load_config_file_def
        select_runs_def and_then_def ex_chroot_def ex_args_def ex_env_def ex_config_def
        pjoin_def is_absolute_def startswith_def Let_def)
  have 4: "fst (chroot_run ex_env ex_args ex_chroot) = Inr ()"
    unfolding r by (simp add: call_and_report_def ex_env_def Let_def)
  have 5: "trace (snd (chroot_run ex_env ex_args ex_chroot)) =
     [Signal ''pre_run'',
      Call (Shell (''chroot --userspec=1000:1000 /t/root /bin/sh -c '' @
                   ''cd /home/user && /usr/bin/env -i PATH=/usr/bin '' @
                   ''/usr/bin/prog -o /out/result.txt'')),
      Status 0, Signal ''post_run'']"
    unfolding r by (simp add: call_and_report_def ex_env_def ex_chroot_def emit_def Let_def)
  from 1 2 3 4 5 show ?thesis by blast
qed

text \<open>
  C8, amended to the directory run. Without \<^verbatim>\<open>--cmdline\<close>, \<^verbatim>\<open>directory_run\<close> passes
  each recorded argument through the rule of the specification: an argument that does
  not encode, is not absolute, or whose candidate neither exists nor has more than
  three components and an existing parent, is left as it is; every other one becomes
  its candidate. The flag is set exactly when some argument is rewritten, and all it
  does is log the notice. The chroot run rewrites nothing: it passes the recorded
  binary and then the recorded arguments after the first.
\<close>

theorem directory_run_rewrites:
  assumes "cmdline a = None"
  shows
    "rewrite_args E w root 0 (argv r) False =
       (map (spec_rewritten E w root) (argv r), list_ex (spec_rewrites E w root) (argv r)) \<and>
     fst (fst (directory_argv E a root r w)) = map (spec_rewritten E w root) (argv r) \<and>
     snd (directory_argv E a root r w) =
       (if list_ex (spec_rewrites E w root) (argv r) then
          emit (Log WARNING (''Rewrote command-line as: '' @
                  join '' '' (map (shell_escape E) (map (spec_rewritten E w root) (argv r))))) w
        else w) \<and>
     chroot_argv a r = binary r # drop 1 (argv r)"
proof -
  have 1: "fst (fst (directory_argv E a root r w)) = map (spec_rewritten E w root) (argv r)"
    using assms by (simp add: directory_argv_def rewrite_args_0)
  have 2: "snd (directory_argv E a root r w) =
       (if list_ex (spec_rewrites E w root) (argv r) then
          emit (Log WARNING (''Rewrote command-line as: '' @
                  join '' '' (map (shell_escape E) (map (spec_rewritten E w root) (argv r))))) w
        else w)"
    using assms by (simp add: directory_argv_def rewrite_args_0)
  have 4: "chroot_argv a r = binary r # drop 1 (argv r)"
    using assms by (simp add: chroot_argv_def)
  from 1 2 4 show ?thesis by (simp add: rewrite_args_0)
qed

theorem directory_run_rewrites_witness:
  "cmdline ex_args = None \<and>
   fst (fst (directory_argv ex_env ex_args ''/t/root'' ex_run ex_directory)) =
     [''/t/root/usr/bin/prog'', ''-o'', ''/t/root/out/result.txt''] \<and>
   trace (snd (directory_argv ex_env ex_args ''/t/root'' ex_run ex_directory)) =
     [Log WARNING ''Rewrote command-line as: /t/root/usr/bin/prog -o /t/root/out/result.txt''] \<and>
   chroot_argv ex_args ex_run = [''/usr/bin/prog'', ''-o'', ''/out/result.txt'']"
proof -
  have 0: "cmdline ex_args = None"
    by (simp add: ex_args_def)
  have a: "spec_rewritten ex_env ex_directory ''/t/root'' ''/usr/bin/prog'' = ''/t/root/usr/bin/prog''"
    by (simp add: spec_rewritten_def spec_rewrites_def ex_env_def ex_directory_def
        join_root_def pjoin_def is_absolute_def startswith_def exists_def)
  have b: "spec_rewritten ex_env ex_directory ''/t/root'' ''-o'' = ''-o''"
    by (simp add: spec_rewritten_def spec_rewrites_def is_absolute_def startswith_def)
  have c: "spec_rewritten ex_env ex_directory ''/t/root'' ''/out/result.txt'' =
      ''/t/root/out/result.txt''"
    by (simp add: spec_rewritten_def spec_rewrites_def ex_env_def ex_directory_def
        join_root_def pjoin_def is_absolute_def startswith_def exists_def components_def
        parent_def)
  have d: "spec_rewrites ex_env ex_directory ''/t/root'' ''/usr/bin/prog''"
    by (simp add: spec_rewrites_def ex_env_def ex_directory_def
        join_root_def pjoin_def is_absolute_def startswith_def exists_def)
  from directory_run_rewrites [OF 0, of ex_env ex_directory "''/t/root''" ex_run] 0
  show ?thesis
    by (simp add: ex_run_def a b c d emit_def) (simp add: ex_env_def ex_directory_def ex_args_def)
qed

section \<open>Setup: the check of the member names\<close>

lemma extracted_emit:
  "extracted (emit e w) = extracted w @ (case e of Extract m d \<Rightarrow> [(m, d)] | _ \<Rightarrow> [])"
  by (simp add: extracted_def emit_def)

lemma extracted_emit_other [simp]:
  "extracted (emit (Log l s) w) = extracted w"
  "extracted (emit (Signal s) w) = extracted w"
  "extracted (emit (Usage s b) w) = extracted w"
  "extracted (emit (Chown p q) w) = extracted w"
  "extracted (emit (Call c) w) = extracted w"
  by (simp_all add: extracted_emit)

lemma extracted_write_node [simp]: "extracted (write_node p n w) = extracted w"
  by (simp add: extracted_def write_node_def)

lemma extracted_mkdir [simp]: "extracted (mkdir p w) = extracted w"
  by (simp add: mkdir_def)

lemma extracted_tar_extract [simp]:
  "extracted (tar_extract m d w) = extracted w @ [(m, d)]"
  by (simp add: tar_extract_def extracted_emit)

lemma exists_emit [simp]: "exists (emit e w) p = exists w p"
  by (simp add: exists_def emit_def)

lemma exists_write_node: "exists w p \<Longrightarrow> exists (write_node q n w) p"
  by (simp add: exists_def write_node_def)

lemma exists_write_node_same [simp]: "exists (write_node p n w) p"
  by (simp add: exists_def write_node_def)

lemma exists_mkdir: "exists w p \<Longrightarrow> exists (mkdir q w) p"
  by (simp add: mkdir_def exists_write_node)

lemma exists_mkdir_same [simp]: "exists (mkdir p w) p"
  by (simp add: mkdir_def)

lemma exists_tar_extract: "exists w p \<Longrightarrow> exists (tar_extract m d w) p"
  by (simp add: tar_extract_def exists_write_node exists_mkdir)

lemma exists_tar_extract_dir [simp]: "exists (tar_extract m d w) d"
  by (simp add: tar_extract_def exists_write_node)

lemma exists_tar_extract_member [simp]: "exists (tar_extract m d w) (pjoin d (name m))"
  by (simp add: tar_extract_def)

lemma trace_fold_emit: "trace (fold (\<lambda>x. emit (f x)) xs w) = trace w @ map f xs"
  by (induction xs arbitrary: w) (simp_all add: emit_def)

lemma fs_fold_emit: "fs (fold (\<lambda>x. emit (f x)) xs w) = fs w"
  by (induction xs arbitrary: w) (simp_all add: emit_def)

lemma check_packages_keeps:
  "fs (check_packages pkgs w) = fs w" "extracted (check_packages pkgs w) = extracted w"
proof -
  let ?f = "\<lambda>(f, n). Log ERROR (''Missing file '' @ f @ '' (from package '' @ n @
                  '' that wasn't packed) on host, experiment will probably miss it.'')"
  have e: "(\<lambda>(f, n). emit (Log ERROR (''Missing file '' @ f @ '' (from package '' @ n @
                  '' that wasn't packed) on host, experiment will probably miss it.''))) =
           (\<lambda>x. emit (?f x))"
    by auto
  show "fs (check_packages pkgs w) = fs w"
    unfolding check_packages_def Let_def e by (simp add: fs_fold_emit fs_emit)
  have "extracted (fold (\<lambda>x. emit (?f x)) xs w) = extracted w" for xs
    by (simp add: extracted_def trace_fold_emit split_def)
  then show "extracted (check_packages pkgs w) = extracted w"
    unfolding check_packages_def Let_def e by simp
qed

text \<open>A member with an invalid name is not the configuration member, so it keeps its name.\<close>

lemma rename_first_keeps_invalid:
  "list_ex invalid_pathname ms \<Longrightarrow>
     list_ex invalid_pathname (rename_first ''METADATA/config.yml'' n' ms)"
proof (induction ms)
  case Nil
  then show ?case by simp
next
  case (Cons m ms)
  have "\<not> invalid_pathname m" if "name m = ''METADATA/config.yml''"
    using that by (simp add: invalid_pathname_def startswith_def)
  with Cons show ?case by auto
qed

lemma rename_last_keeps_invalid:
  "list_ex invalid_pathname ms \<Longrightarrow>
     list_ex invalid_pathname (rename_last ''METADATA/config.yml'' n' ms)"
  unfolding rename_last_def
  using rename_first_keeps_invalid [of "rev ms" n'] by (simp add: list_ex_iff)

text \<open>What \<^verbatim>\<open>unpack_config\<close> does to a pack.\<close>

lemma unpack_config_cases:
  assumes "fs w pk = Some (PackFile ms)"
  shows "(\<exists>e. unpack_config E pk tgt w = (Inl e, w)) \<or>
         (\<exists>m e. name m = ''config.yml'' \<and> unpack_config E pk tgt w = (Inl e, tar_extract m tgt w)) \<or>
         (\<exists>m cfg. name m = ''config.yml'' \<and>
            unpack_config E pk tgt w =
              (Inr (rename_last ''METADATA/config.yml'' ''config.yml'' ms, cfg),
               tar_extract m tgt w))"
proof (cases "getmember ''METADATA/config.yml'' ms")
  case (Inl e)
  with assms show ?thesis by (simp add: unpack_config_def)
next
  case (Inr member)
  let ?m = "member\<lparr>name := ''config.yml''\<rparr>"
  let ?w = "tar_extract ?m tgt w"
  have n: "name ?m = ''config.yml''" by simp
  obtain r w' where l: "load_config_file E (pjoin tgt ''config.yml'') ?w = (r, w')"
    by (cases "load_config_file E (pjoin tgt ''config.yml'') ?w")
  then have w': "w' = ?w"
    by (auto simp: load_config_file_def split: option.splits node.splits)
  show ?thesis
  proof (cases r)
    case (Inl e)
    with assms Inr l w' have "unpack_config E pk tgt w = (Inl e, ?w)"
      by (simp add: unpack_config_def Let_def and_then_Inl)
    with n show ?thesis by blast
  next
    case (Inr cfg)
    with assms \<open>getmember ''METADATA/config.yml'' ms = Inr member\<close> l w'
    have "unpack_config E pk tgt w =
        (Inr (rename_last ''METADATA/config.yml'' ''config.yml'' ms, cfg), ?w)"
      by (simp add: unpack_config_def Let_def and_then_Inr)
    with n show ?thesis by blast
  qed
qed

lemma keeps_refl [simp]: "keeps w w"
  by (simp add: keeps_def)

lemma keeps_trans: "keeps w w1 \<Longrightarrow> keeps w1 w2 \<Longrightarrow> keeps w w2"
  by (simp add: keeps_def)

lemma keeps_steps [simp]:
  "keeps w (emit (Log l s) w)"
  "keeps w (emit (Usage k b) w)"
  "keeps w (emit (Chown p q) w)"
  "keeps w (write_node p n w)"
  "keeps w (mkdir p w)"
  by (simp_all add: keeps_def exists_write_node exists_mkdir)

lemma keeps_then: "keeps w w1 \<Longrightarrow> keeps w (emit (Log l s) w1)"
  "keeps w w1 \<Longrightarrow> keeps w (emit (Usage k b) w1)"
  "keeps w w1 \<Longrightarrow> keeps w (emit (Chown p q) w1)"
  "keeps w w1 \<Longrightarrow> keeps w (write_node p n w1)"
  "keeps w w1 \<Longrightarrow> keeps w (mkdir p w1)"
  by (simp_all add: keeps_def exists_write_node exists_mkdir)

lemma snd_and_then_keeps:
  assumes "keeps w (snd r)" and "\<And>x w1. keeps w w1 \<Longrightarrow> keeps w (snd (f x w1))"
  shows "keeps w (snd (and_then r f))"
proof (cases r)
  case (Pair a w1)
  with assms show ?thesis by (cases a) (simp_all add: and_then_def)
qed

lemma keeps_copy_files: "keeps w0 w \<Longrightarrow> keeps w0 (snd (copy_files root restore n fl w))"
proof (induction fl arbitrary: w)
  case Nil
  then show ?case by simp
next
  case (Cons f fl)
  show ?case
  proof (cases "exists w f")
    case False
    then show ?thesis
      using Cons.prems by (auto intro!: snd_and_then_keeps Cons.IH keeps_then)
  next
    case True
    let ?d = "join_root root f"
    let ?wm = "mkdir (parent ?d) w"
    have km: "keeps w0 ?wm"
      using Cons.prems by (rule keeps_then)
    have c: "keeps w0 (snd (copy_files root restore n fl
               (if restore then emit (Chown ?d f) (write_node ?d nd ?wm)
                else write_node ?d nd ?wm)))" for nd
      using km by (intro Cons.IH) (simp add: keeps_then)
    show ?thesis
    proof (cases "fs ?wm f")
      case None
      with True km show ?thesis by (simp add: Let_def)
    next
      case (Some nd)
      with True km c [of nd] show ?thesis
        by (cases nd; cases restore) (simp_all add: Let_def)
    qed
  qed
qed

lemma keeps_copy_packages: "keeps w0 w \<Longrightarrow> keeps w0 (snd (copy_packages root restore pkgs w))"
proof (induction pkgs arbitrary: w)
  case Nil
  then show ?case by simp
next
  case (Cons pkg pkgs)
  show ?case
    using Cons.prems by (auto intro!: snd_and_then_keeps keeps_copy_files Cons.IH)
qed

lemma keeps_chroot_copy_packages:
  "keeps w0 w \<Longrightarrow> keeps w0 (snd (chroot_copy_packages root restore pkgs w))"
  by (auto simp: chroot_copy_packages_def Let_def
        intro!: snd_and_then_keeps keeps_copy_packages keeps_then)

lemma keeps_check_packages: "keeps w0 w \<Longrightarrow> keeps w0 (check_packages pkgs w)"
  by (simp add: keeps_def check_packages_keeps exists_def)

lemma invalid_unpack_files:
  "list_ex invalid_pathname ms \<Longrightarrow>
     directory_unpack_files root ms w =
       (Inl (SystemExit 1), emit (Log CRITICAL ''Tar archive contains invalid pathnames'') w)"
  "list_ex invalid_pathname ms \<Longrightarrow>
     chroot_unpack_files E restore root ms w =
       (Inl (SystemExit 1), emit (Log CRITICAL ''Tar archive contains invalid pathnames'') w)"
  by (simp_all add: directory_unpack_files_def chroot_unpack_files_def)

text \<open>
  What a world looks like when a setup has failed on a pack with an invalid name: at
  most the configuration member was extracted, and if the last thing done was the
  message of the name check, target, configuration and root are there.
\<close>

lemma failed_after_config:
  assumes "name m = ''config.yml''" and "keeps (tar_extract m tgt w0) w'"
    and "extracted w0 = extracted w"
  shows "(extracted w' = extracted w \<or>
          (\<exists>m. name m = ''config.yml'' \<and> extracted w' = extracted w @ [(m, tgt)])) \<and>
         exists w' tgt \<and> exists w' (pjoin tgt ''config.yml'')"
proof -
  from assms(2) have "extracted w' = extracted w0 @ [(m, tgt)]"
    "exists w' tgt" "exists w' (pjoin tgt (name m))"
    by (simp_all add: keeps_def)
  with assms(1,3) show ?thesis by auto
qed

lemma directory_create_invalid:
  assumes "pack a = pk # rest" and "fs w pk = Some (PackFile ms)"
    and "list_ex invalid_pathname ms"
  shows "\<exists>e w'. directory_create E a w = (Inl e, w') \<and>
           (extracted w' = extracted w \<or>
            (\<exists>m. name m = ''config.yml'' \<and> extracted w' = extracted w @ [(m, target a)])) \<and>
           (last (trace w') = Log CRITICAL ''Tar archive contains invalid pathnames'' \<longrightarrow>
              exists w' (target a) \<and> exists w' (pjoin (target a) ''config.yml'') \<and>
              exists w' (pjoin (target a) ''root''))"
proof (cases "exists w (target a) \<or> \<not> posix E")
  case True
  with assms(1) show ?thesis
    by (auto simp: directory_create_def emit_def extracted_def)
next
  case False
  let ?wa = "emit (Signal ''pre_setup'') w"
  let ?tgt = "target a"
  have d: "directory_create E a w =
      and_then (unpack_config E pk ?tgt ?wa)
        (\<lambda>(ms, cfg) w.
           let w = mkdir ?tgt w;
               root = absolute (pjoin ?tgt ''root'');
               w = mkdir root w;
               w = check_packages (packages cfg) w
           in and_then (directory_unpack_files root ms w)
                (\<lambda>_ w.
                   and_then (pack_inputs ?tgt root (runs cfg) (emit (Call Ldconfig) w))
                     (\<lambda>_ w.
                        let w = write_dict (pjoin ?tgt ''.reprounzip'') empty_dict ''directory'' w
                        in (Inr (), emit (Signal ''post_setup'') w))))"
    using False assms(1) by (simp add: directory_create_def)
  have f: "fs ?wa pk = Some (PackFile ms)"
    using assms(2) by (simp add: fs_emit)
  from unpack_config_cases [OF f, of E ?tgt] show ?thesis
  proof (elim disjE exE conjE)
    fix e
    assume "unpack_config E pk ?tgt ?wa = (Inl e, ?wa)"
    then show ?thesis
      unfolding d by (simp add: and_then_Inl) (simp add: emit_def)
  next
    fix m e
    assume "name m = ''config.yml''" "unpack_config E pk ?tgt ?wa = (Inl e, tar_extract m ?tgt ?wa)"
    then show ?thesis
      unfolding d
      using failed_after_config [where m = m and tgt = ?tgt and ?w0.0 = ?wa and w = w
          and w' = "tar_extract m ?tgt ?wa"]
      by (simp add: and_then_Inl) (simp add: tar_extract_def emit_def)
  next
    fix m and cfg :: config
    let ?ms = "rename_last ''METADATA/config.yml'' ''config.yml'' ms"
    let ?wb = "check_packages (packages cfg)
                 (mkdir (pjoin ?tgt ''root'') (mkdir ?tgt (tar_extract m ?tgt ?wa)))"
    let ?w' = "emit (Log CRITICAL ''Tar archive contains invalid pathnames'') ?wb"
    assume n: "name m = ''config.yml''"
      and u: "unpack_config E pk ?tgt ?wa = (Inr (?ms, cfg), tar_extract m ?tgt ?wa)"
    have r: "directory_create E a w = (Inl (SystemExit 1), ?w')"
      unfolding d u
      by (simp add: and_then_Inr and_then_Inl Let_def absolute_def
          invalid_unpack_files rename_last_keeps_invalid [OF assms(3)])
    have k: "keeps (tar_extract m ?tgt ?wa) ?w'"
      by (intro keeps_then keeps_check_packages) simp
    have "exists ?w' (pjoin ?tgt ''root'')"
      by (simp add: exists_def check_packages_keeps fs_emit) (simp add: mkdir_def exists_def write_node_def)
    with failed_after_config [OF n k] r show ?thesis by simp
  qed
qed

lemma should_restore_owner_cases:
  "(\<exists>s. should_restore_owner E p w = (Inl (SystemExit 1), emit (Log CRITICAL s) w) \<and>
        s \<noteq> ''Tar archive contains invalid pathnames'') \<or>
   (\<exists>b w1. should_restore_owner E p w = (Inr b, w1) \<and> fs w1 = fs w \<and>
        extracted w1 = extracted w)"
  by (auto simp: should_restore_owner_def fs_emit)

lemma chroot_create_invalid:
  assumes "pack a = pk # rest" and "fs w pk = Some (PackFile ms)"
    and "list_ex invalid_pathname ms"
  shows "\<exists>e w'. chroot_create E a w = (Inl e, w') \<and>
           (extracted w' = extracted w \<or>
            (\<exists>m. name m = ''config.yml'' \<and> extracted w' = extracted w @ [(m, target a)])) \<and>
           (last (trace w') = Log CRITICAL ''Tar archive contains invalid pathnames'' \<longrightarrow>
              exists w' (target a) \<and> exists w' (pjoin (target a) ''config.yml'') \<and>
              exists w' (pjoin (target a) ''root''))"
proof (cases "exists w (target a) \<or> \<not> posix E")
  case True
  with assms(1) show ?thesis
    by (auto simp: chroot_create_def emit_def extracted_def)
next
  case False
  let ?wa = "emit (Signal ''pre_setup'') w"
  let ?tgt = "target a"
  let ?root = "pjoin ?tgt ''root''"
  let ?rest = "\<lambda>restore (ms, cfg) w.
           let w = mkdir ?tgt w;
               root = absolute (pjoin ?tgt ''root'');
               w = mkdir root w
           in and_then (chroot_copy_packages root restore (packages cfg) w)
                (\<lambda>_ w.
              and_then (chroot_unpack_files E restore root ms w)
                (\<lambda>_ w.
              and_then (setup_busybox E root (runs cfg) w)
                (\<lambda>_ w.
              and_then (pack_inputs ?tgt root (runs cfg) w)
                (\<lambda>_ w.
                   let w = write_dict (pjoin ?tgt ''.reprounzip'') empty_dict ''chroot'' w
                   in (Inr (), emit (Signal ''post_setup'') w)))))"
  have d: "chroot_create E a w =
      and_then (should_restore_owner E (restore_owner a) ?wa)
        (\<lambda>restore w. and_then (unpack_config E pk ?tgt w) (?rest restore))"
    using False assms(1) by (simp add: chroot_create_def)
  from should_restore_owner_cases [of E "restore_owner a" ?wa] show ?thesis
  proof (elim disjE exE conjE)
    fix s
    assume "should_restore_owner E (restore_owner a) ?wa = (Inl (SystemExit 1), emit (Log CRITICAL s) ?wa)"
      "s \<noteq> ''Tar archive contains invalid pathnames''"
    then show ?thesis
      unfolding d by (simp add: and_then_Inl) (simp add: emit_def)
  next
    fix restore wr
    assume s: "should_restore_owner E (restore_owner a) ?wa = (Inr restore, wr)"
      and fr: "fs wr = fs ?wa" and er: "extracted wr = extracted ?wa"
    have d2: "chroot_create E a w = and_then (unpack_config E pk ?tgt wr) (?rest restore)"
      unfolding d s by (simp add: and_then_Inr)
    have ew: "extracted wr = extracted w"
      using er by simp
    have l: "last (trace wr) \<noteq> Log CRITICAL ''Tar archive contains invalid pathnames''"
      using s by (auto simp: should_restore_owner_def emit_def split: if_splits)
    have f: "fs wr pk = Some (PackFile ms)"
      using assms(2) fr by (simp add: fs_emit)
    from unpack_config_cases [OF f, of E ?tgt] show ?thesis
    proof (elim disjE exE conjE)
      fix e
      assume "unpack_config E pk ?tgt wr = (Inl e, wr)"
      then show ?thesis
        unfolding d2 using ew l by (simp add: and_then_Inl)
    next
      fix m e
      assume "name m = ''config.yml''" "unpack_config E pk ?tgt wr = (Inl e, tar_extract m ?tgt wr)"
      then show ?thesis
        unfolding d2
        using failed_after_config [where m = m and tgt = ?tgt and ?w0.0 = wr and w = w
            and w' = "tar_extract m ?tgt wr"] ew
        by (simp add: and_then_Inl) (simp add: tar_extract_def emit_def)
    next
      fix m and cfg :: config
      let ?ms = "rename_last ''METADATA/config.yml'' ''config.yml'' ms"
      let ?wb = "mkdir ?root (mkdir ?tgt (tar_extract m ?tgt wr))"
      assume n: "name m = ''config.yml''"
        and u: "unpack_config E pk ?tgt wr = (Inr (?ms, cfg), tar_extract m ?tgt wr)"
      obtain r wc where c: "chroot_copy_packages ?root restore (packages cfg) ?wb = (r, wc)"
        by (cases "chroot_copy_packages ?root restore (packages cfg) ?wb")
      have kb: "keeps (tar_extract m ?tgt wr) ?wb"
        by (intro keeps_then) simp
      have kc: "keeps (tar_extract m ?tgt wr) wc"
        using keeps_chroot_copy_packages [OF kb, of ?root restore "packages cfg"] c by simp
      have rt: "exists wc ?root"
        using keeps_chroot_copy_packages [of ?wb ?wb ?root restore "packages cfg"] c
        by (simp add: keeps_def)
      let ?w' = "emit (Log CRITICAL ''Tar archive contains invalid pathnames'') wc"
      have "\<exists>e w'. chroot_create E a w = (Inl e, w') \<and> keeps (tar_extract m ?tgt wr) w' \<and>
          exists w' ?root"
      proof (cases r)
        case (Inl e)
        with c kc rt show ?thesis
          unfolding d2 u by (simp add: and_then_Inr and_then_Inl Let_def absolute_def)
      next
        case (Inr x)
        with c have "chroot_create E a w = (Inl (SystemExit 1), ?w')"
          unfolding d2 u
          by (simp add: and_then_Inr and_then_Inl Let_def absolute_def
              invalid_unpack_files rename_last_keeps_invalid [OF assms(3)])
        with kc rt show ?thesis by (simp add: keeps_then)
      qed
      then obtain e w' where "chroot_create E a w = (Inl e, w')"
        "keeps (tar_extract m ?tgt wr) w'" "exists w' ?root"
        by blast
      with failed_after_config [OF n this(2) ew] show ?thesis by simp
    qed
  qed
qed

text \<open>The two setups on the example pack with the invalid name.\<close>

lemma ex_bad_setup:
  "directory_create ex_env ex_bad_args ex_host =
      (Inl (SystemExit 1),
       emit (Log CRITICAL ''Tar archive contains invalid pathnames'')
         (check_packages []
            (mkdir ''/t/root'' (mkdir ''/t''
               (tar_extract (hd ex_bad_members\<lparr>name := ''config.yml''\<rparr>) ''/t''
                  (emit (Signal ''pre_setup'') ex_host))))))"
  "chroot_create ex_env ex_bad_args ex_host =
      (Inl (SystemExit 1),
       emit (Log CRITICAL ''Tar archive contains invalid pathnames'')
         (mkdir ''/t/root'' (mkdir ''/t''
            (tar_extract (hd ex_bad_members\<lparr>name := ''config.yml''\<rparr>) ''/t''
               (emit (Usage ''restore_owner'' False)
                  (emit (Log WARNING ''Not running as root, won't restore files' owner/group'')
                     (emit (Signal ''pre_setup'') ex_host)))))))"
proof -
  have g: "getmember ''METADATA/config.yml'' ex_bad_members = Inr (hd ex_bad_members)"
    by (simp add: getmember_def ex_bad_members_def ex_members_def)
  have i: "list_ex invalid_pathname
             (rename_last ''METADATA/config.yml'' ''config.yml'' ex_bad_members)"
    by (rule rename_last_keeps_invalid)
       (simp add: ex_bad_members_def ex_members_def invalid_pathname_def startswith_def)
  have u: "unpack_config ex_env ''/bad.rpz'' ''/t'' W =
      (Inr (rename_last ''METADATA/config.yml'' ''config.yml'' ex_bad_members, ex_config),
       tar_extract (hd ex_bad_members\<lparr>name := ''config.yml''\<rparr>) ''/t'' W)"
    if f: "fs W ''/bad.rpz'' = Some (PackFile ex_bad_members)" for W
  proof -
    have n: "node_of (hd ex_bad_members\<lparr>name := ''config.yml''\<rparr>) = File ''cfg''"
      by (simp add: node_of_def ex_bad_members_def ex_members_def)
    have l: "load_config_file ex_env (pjoin ''/t'' ''config.yml'')
               (tar_extract (hd ex_bad_members\<lparr>name := ''config.yml''\<rparr>) ''/t'' W) =
             (Inr ex_config, tar_extract (hd ex_bad_members\<lparr>name := ''config.yml''\<rparr>) ''/t'' W)"
      by (simp add: load_config_file_def tar_extract_def n emit_def write_node_def)
         (simp add: ex_env_def)
    show ?thesis
      by (simp add: unpack_config_def f g Let_def l and_then_Inr)
  qed
  have h: "fs ex_host ''/bad.rpz'' = Some (PackFile ex_bad_members)" "\<not> exists ex_host ''/t''"
    "posix ex_env" "packages ex_config = []" "pack ex_bad_args = [''/bad.rpz'']"
    "target ex_bad_args = ''/t''" "restore_owner ex_bad_args = None"
    by (simp_all add: ex_host_def exists_def ex_env_def ex_config_def ex_bad_args_def ex_args_def)
  show "directory_create ex_env ex_bad_args ex_host =
      (Inl (SystemExit 1),
       emit (Log CRITICAL ''Tar archive contains invalid pathnames'')
         (check_packages []
            (mkdir ''/t/root'' (mkdir ''/t''
               (tar_extract (hd ex_bad_members\<lparr>name := ''config.yml''\<rparr>) ''/t''
                  (emit (Signal ''pre_setup'') ex_host))))))"
    by (simp add: directory_create_def h u fs_emit and_then_Inr and_then_Inl
          invalid_unpack_files i Let_def absolute_def pjoin_def is_absolute_def startswith_def)
  have sr: "should_restore_owner ex_env None w =
      (Inr False, emit (Usage ''restore_owner'' False)
         (emit (Log WARNING ''Not running as root, won't restore files' owner/group'') w))" for w
    by (simp add: should_restore_owner_def ex_env_def)
  show "chroot_create ex_env ex_bad_args ex_host =
      (Inl (SystemExit 1),
       emit (Log CRITICAL ''Tar archive contains invalid pathnames'')
         (mkdir ''/t/root'' (mkdir ''/t''
            (tar_extract (hd ex_bad_members\<lparr>name := ''config.yml''\<rparr>) ''/t''
               (emit (Usage ''restore_owner'' False)
                  (emit (Log WARNING ''Not running as root, won't restore files' owner/group'')
                     (emit (Signal ''pre_setup'') ex_host)))))))"
    by (simp add: chroot_create_def h sr u fs_emit and_then_Inr and_then_Inl
          invalid_unpack_files i Let_def absolute_def pjoin_def is_absolute_def startswith_def chroot_copy_packages_def)
qed

text \<open>
  C1, as stated, fails: both setups extract the configuration member into the target
  and create the target and its root before they check the names, and exit without
  removing anything. Here the pack has a member named \<^verbatim>\<open>DATA/../evil\<close>; both setups exit
  with status 1 and leave the target, which did not exist, with its configuration file
  and its root directory.
\<close>

theorem setup_leaves_target_behind:
  "invalid_pathname (last ex_bad_members) \<and>
   fs ex_host ''/bad.rpz'' = Some (PackFile ex_bad_members) \<and>
   fs ex_host ''/t'' = None \<and>
   fst (directory_create ex_env ex_bad_args ex_host) = Inl (SystemExit 1) \<and>
   fs (snd (directory_create ex_env ex_bad_args ex_host)) ''/t'' = Some Dir \<and>
   fs (snd (directory_create ex_env ex_bad_args ex_host)) ''/t/config.yml'' = Some (File ''cfg'') \<and>
   fs (snd (directory_create ex_env ex_bad_args ex_host)) ''/t/root'' = Some Dir \<and>
   fst (chroot_create ex_env ex_bad_args ex_host) = Inl (SystemExit 1) \<and>
   fs (snd (chroot_create ex_env ex_bad_args ex_host)) ''/t'' = Some Dir \<and>
   fs (snd (chroot_create ex_env ex_bad_args ex_host)) ''/t/config.yml'' = Some (File ''cfg'') \<and>
   fs (snd (chroot_create ex_env ex_bad_args ex_host)) ''/t/root'' = Some Dir"
proof -
  note dc = ex_bad_setup(1) and cc = ex_bad_setup(2)
  have 1: "invalid_pathname (last ex_bad_members)"
    by (simp add: ex_bad_members_def invalid_pathname_def startswith_def)
  have 2: "fs ex_host ''/bad.rpz'' = Some (PackFile ex_bad_members)" "fs ex_host ''/t'' = None"
    by (simp_all add: ex_host_def)
  have 3: "fs (snd (directory_create ex_env ex_bad_args ex_host)) ''/t'' = Some Dir"
    "fs (snd (directory_create ex_env ex_bad_args ex_host)) ''/t/config.yml'' = Some (File ''cfg'')"
    "fs (snd (directory_create ex_env ex_bad_args ex_host)) ''/t/root'' = Some Dir"
    unfolding dc
    by (simp_all add: check_packages_keeps fs_emit mkdir_def tar_extract_def write_node_def
          exists_def pjoin_def is_absolute_def startswith_def node_of_def ex_host_def ex_bad_members_def ex_members_def emit_def)
  have 4: "fs (snd (chroot_create ex_env ex_bad_args ex_host)) ''/t'' = Some Dir"
    "fs (snd (chroot_create ex_env ex_bad_args ex_host)) ''/t/config.yml'' = Some (File ''cfg'')"
    "fs (snd (chroot_create ex_env ex_bad_args ex_host)) ''/t/root'' = Some Dir"
    unfolding cc
    by (simp_all add: fs_emit mkdir_def tar_extract_def write_node_def
          exists_def pjoin_def is_absolute_def startswith_def node_of_def ex_host_def ex_bad_members_def ex_members_def emit_def)
  from 1 2 3 4 dc cc show ?thesis by simp
qed

text \<open>
  C1, amended. On a pack with a member whose name contains \<^verbatim>\<open>..\<close> or starts with
  \<^verbatim>\<open>/\<close>, both setups raise before any data member is extracted: the names of all
  members are checked before \<^verbatim>\<open>extractall\<close>, and at most the configuration member has
  been extracted by then. When the setup ends on the message of that check, the target
  is left with its configuration file and its root directory.
\<close>

theorem invalid_names_stop_setup:
  assumes "pack a = pk # rest" and "fs w pk = Some (PackFile ms)"
    and "list_ex invalid_pathname ms"
  shows "stopped_before_data w (target a) (directory_create E a w) \<and>
         stopped_before_data w (target a) (chroot_create E a w)"
proof -
  have "stopped_before_data w (target a) r"
    if "\<exists>e w'. r = (Inl e, w') \<and>
           (extracted w' = extracted w \<or>
            (\<exists>m. name m = ''config.yml'' \<and> extracted w' = extracted w @ [(m, target a)])) \<and>
           (last (trace w') = Log CRITICAL ''Tar archive contains invalid pathnames'' \<longrightarrow>
              exists w' (target a) \<and> exists w' (pjoin (target a) ''config.yml'') \<and>
              exists w' (pjoin (target a) ''root''))" for r
    using that by (auto simp: stopped_before_data_def extracted_names_def)
  with directory_create_invalid [OF assms] chroot_create_invalid [OF assms] show ?thesis
    by blast
qed

theorem invalid_names_stop_setup_witness:
  "pack ex_bad_args = [''/bad.rpz''] \<and>
   fs ex_host ''/bad.rpz'' = Some (PackFile ex_bad_members) \<and>
   list_ex invalid_pathname ex_bad_members \<and>
   last (trace (snd (directory_create ex_env ex_bad_args ex_host))) =
     Log CRITICAL ''Tar archive contains invalid pathnames'' \<and>
   last (trace (snd (chroot_create ex_env ex_bad_args ex_host))) =
     Log CRITICAL ''Tar archive contains invalid pathnames'' \<and>
   stopped_before_data ex_host (target ex_bad_args)
     (directory_create ex_env ex_bad_args ex_host) \<and>
   stopped_before_data ex_host (target ex_bad_args)
     (chroot_create ex_env ex_bad_args ex_host)"
proof -
  have 1: "pack ex_bad_args = [''/bad.rpz'']"
    by (simp add: ex_bad_args_def ex_args_def)
  have 2: "fs ex_host ''/bad.rpz'' = Some (PackFile ex_bad_members)"
    by (simp add: ex_host_def)
  have 3: "list_ex invalid_pathname ex_bad_members"
    by (simp add: ex_bad_members_def ex_members_def invalid_pathname_def startswith_def)
  have 4: "last (trace (snd (directory_create ex_env ex_bad_args ex_host))) =
     Log CRITICAL ''Tar archive contains invalid pathnames''"
    "last (trace (snd (chroot_create ex_env ex_bad_args ex_host))) =
     Log CRITICAL ''Tar archive contains invalid pathnames''"
    by (simp_all add: ex_bad_setup emit_def)
  from invalid_names_stop_setup [OF 1 2 3, of ex_env] 1 2 3 4 show ?thesis
    by simp
qed

section \<open>Setup: symbolic links\<close>
























section \<open>Download: a missing file\<close>

lemma and_then_assoc:
  "and_then (and_then r f) g = and_then r (\<lambda>x w. and_then (f x w) g)"
  by (cases r) (auto simp: and_then_def split: sum.splits)

lemma download_specs_append:
  "download_specs root outs (xs @ ys) w =
     and_then (download_specs root outs xs w) (\<lambda>_ w. download_specs root outs ys w)"
proof (induction xs arbitrary: w)
  case Nil
  show ?case by (simp add: and_then_Inr)
next
  case (Cons x xs)
  have ih: "download_specs root outs (xs @ ys) =
      (\<lambda>w. and_then (download_specs root outs xs w) (\<lambda>_ w. download_specs root outs ys w))"
    by (rule ext) (rule Cons.IH)
  show ?case
    by (simp add: ih and_then_assoc and_then_Inl split: option.splits prod.splits)
qed

lemma download_missing:
  assumes "\<not> exists w (join_root root p)"
  shows "download_and_print root p w =
           (Inl (SystemExit 1),
            emit (Log CRITICAL (''Can't get output file (doesn't exist): '' @ join_root root p)) w)"
    and "LocalDownloader_download root p l w =
           (Inl (SystemExit 1),
            emit (Log CRITICAL (''Can't get output file (doesn't exist): '' @ join_root root p)) w)"
  using assms by (simp_all add: download_and_print_def LocalDownloader_download_def)

text \<open>The download of the example, and the download of its second file alone.\<close>

lemma ex_download:
  "(case download ex_env ex_download_args ex_directory of
      (r, w) \<Rightarrow> r = Inl (SystemExit 1) \<and>
        trace w = [Log CRITICAL ''Can't get output file (doesn't exist): /t/root/out/result.txt''])"
  "(case download ex_env (ex_download_args\<lparr>filespecs := [''log:'']\<rparr>) ex_directory of
      (r, w) \<Rightarrow> r = Inr () \<and> trace w = [Stdout ''done''])"
  by code_simp+

text \<open>
  C9, as stated, fails under the batch loop modelled from the specification: the
  exit raised for a missing file leaves the loop. Here the first of two requested
  output files does not exist in the target and the second does; the command exits
  with status 1 after the one message and the second file is never written to
  standard output, which it is when it is requested alone.
\<close>

theorem missing_file_stops_batch:
  "filespecs ex_download_args = [''out:'', ''log:''] \<and>
   fs ex_directory ''/t/root/out/result.txt'' = None \<and>
   fs ex_directory ''/t/root/out/log.txt'' = Some (File ''done'') \<and>
   fst (download ex_env ex_download_args ex_directory) = Inl (SystemExit 1) \<and>
   trace (snd (download ex_env ex_download_args ex_directory)) =
     [Log CRITICAL ''Can't get output file (doesn't exist): /t/root/out/result.txt''] \<and>
   trace (snd (download ex_env (ex_download_args\<lparr>filespecs := [''log:'']\<rparr>) ex_directory)) =
     [Stdout ''done'']"
proof -
  have "filespecs ex_download_args = [''out:'', ''log:'']"
    by (simp add: ex_download_args_def)
  moreover have "fs ex_directory ''/t/root/out/result.txt'' = None"
    "fs ex_directory ''/t/root/out/log.txt'' = Some (File ''done'')"
    by (simp_all add: ex_directory_def)
  ultimately show ?thesis
    using ex_download by (simp add: split_def)
qed

text \<open>
  C9, amended. A download of a file that does not exist in the target logs one
  critical message and exits with status 1 at once: nothing is tried again, nothing is
  written. A restore of an input whose member is not in the side archive raises
  \<open>KeyError\<close> at once. In a batch, under the loop modelled from the specification, the
  specifications before the missing file are handled and the command then ends with
  that exit: whatever follows in the batch is not handled.
\<close>

theorem missing_file_is_fatal:
  "(\<not> exists w (join_root root p) \<longrightarrow>
      download_and_print root p w =
        (Inl (SystemExit 1),
         emit (Log CRITICAL (''Can't get output file (doesn't exist): '' @ join_root root p)) w) \<and>
      LocalDownloader_download root p l w =
        (Inl (SystemExit 1),
         emit (Log CRITICAL (''Can't get output file (doesn't exist): '' @ join_root root p)) w)) \<and>
   (fs w (pjoin tgt ''inputs.tar.gz'') = Some (Archive ms) \<and>
    map_of (rev ms) (join_root [] p) = None \<longrightarrow>
      extract_original_input tgt n p temp w = (Inl KeyError, w)) \<and>
   (download_specs root outs before w = (Inr (), w1) \<and> split_spec spec = Some (role, l) \<and>
    map_of outs role = Some p \<and> \<not> exists w1 (join_root root p) \<longrightarrow>
      download_specs root outs (before @ spec # after) w =
        (Inl (SystemExit 1),
         emit (Log CRITICAL (''Can't get output file (doesn't exist): '' @ join_root root p)) w1))"
proof (intro conjI impI)
  assume "\<not> exists w (join_root root p)"
  then show "download_and_print root p w =
        (Inl (SystemExit 1),
         emit (Log CRITICAL (''Can't get output file (doesn't exist): '' @ join_root root p)) w)"
    "LocalDownloader_download root p l w =
        (Inl (SystemExit 1),
         emit (Log CRITICAL (''Can't get output file (doesn't exist): '' @ join_root root p)) w)"
    by (simp_all add: download_missing)
next
  assume "fs w (pjoin tgt ''inputs.tar.gz'') = Some (Archive ms) \<and>
    map_of (rev ms) (join_root [] p) = None"
  then show "extract_original_input tgt n p temp w = (Inl KeyError, w)"
    by (simp add: extract_original_input_def)
next
  assume a: "download_specs root outs before w = (Inr (), w1) \<and>
    split_spec spec = Some (role, l) \<and> map_of outs role = Some p \<and>
    \<not> exists w1 (join_root root p)"
  then have "download_specs root outs (spec # after) w1 =
        (Inl (SystemExit 1),
         emit (Log CRITICAL (''Can't get output file (doesn't exist): '' @ join_root root p)) w1)"
    by (simp add: download_missing and_then_Inl)
  with a show "download_specs root outs (before @ spec # after) w =
        (Inl (SystemExit 1),
         emit (Log CRITICAL (''Can't get output file (doesn't exist): '' @ join_root root p)) w1)"
    by (simp add: download_specs_append and_then_Inr del: download_specs.simps)
qed

theorem missing_file_is_fatal_witness:
  "\<not> exists ex_directory (join_root ''/t/root'' ''/out/result.txt'') \<and>
   download_and_print ''/t/root'' ''/out/result.txt'' ex_directory =
     (Inl (SystemExit 1),
      emit (Log CRITICAL ''Can't get output file (doesn't exist): /t/root/out/result.txt'')
        ex_directory) \<and>
   fs ex_directory (pjoin ''/t'' ''inputs.tar.gz'') = None \<and>
   fs (write_node ''/t/inputs.tar.gz'' (Archive []) ex_directory) (pjoin ''/t'' ''inputs.tar.gz'') =
     Some (Archive []) \<and>
   map_of (rev []) (join_root [] ''/home/user/in.txt'') = (None :: node option) \<and>
   extract_original_input ''/t'' ''in'' ''/home/user/in.txt'' ''/tmp/in''
       (write_node ''/t/inputs.tar.gz'' (Archive []) ex_directory) =
     (Inl KeyError, write_node ''/t/inputs.tar.gz'' (Archive []) ex_directory) \<and>
   download_specs ''/t/root'' (output_files ex_run) [] ex_directory = (Inr (), ex_directory) \<and>
   split_spec ''out:'' = Some (''out'', []) \<and>
   map_of (output_files ex_run) ''out'' = Some ''/out/result.txt'' \<and>
   download_specs ''/t/root'' (output_files ex_run) ([] @ ''out:'' # [''log:'']) ex_directory =
     (Inl (SystemExit 1),
      emit (Log CRITICAL ''Can't get output file (doesn't exist): /t/root/out/result.txt'')
        ex_directory)"
proof -
  have j: "join_root ''/t/root'' ''/out/result.txt'' = ''/t/root/out/result.txt''"
    by (simp add: join_root_def pjoin_def is_absolute_def startswith_def)
  have 1: "\<not> exists ex_directory (join_root ''/t/root'' ''/out/result.txt'')"
    by (simp add: j exists_def ex_directory_def)
  have 2: "fs ex_directory (pjoin ''/t'' ''inputs.tar.gz'') = None"
    by (simp add: pjoin_def is_absolute_def startswith_def ex_directory_def)
  have 3: "download_specs ''/t/root'' (output_files ex_run) [] ex_directory = (Inr (), ex_directory)"
    by simp
  have 4: "split_spec ''out:'' = Some (''out'', [])"
    "map_of (output_files ex_run) ''out'' = Some ''/out/result.txt''"
    by (simp_all add: ex_run_def)
  have 5: "fs (write_node ''/t/inputs.tar.gz'' (Archive []) ex_directory)
        (pjoin ''/t'' ''inputs.tar.gz'') = Some (Archive []) \<and>
      map_of (rev []) (join_root [] ''/home/user/in.txt'') = (None :: node option)"
    by (simp add: pjoin_def is_absolute_def startswith_def write_node_def)
  from missing_file_is_fatal
      [where w = "write_node ''/t/inputs.tar.gz'' (Archive []) ex_directory" and tgt = "''/t''"
        and ms = "[]" and p = "''/home/user/in.txt''" and n = "''in''" and temp = "''/tmp/in''"] 5
  have 6: "extract_original_input ''/t'' ''in'' ''/home/user/in.txt'' ''/tmp/in''
       (write_node ''/t/inputs.tar.gz'' (Archive []) ex_directory) =
     (Inl KeyError, write_node ''/t/inputs.tar.gz'' (Archive []) ex_directory)"
    by blast
  from missing_file_is_fatal [where w = ex_directory and root = "''/t/root''"
      and p = "''/out/result.txt''" and outs = "output_files ex_run" and before = "[]"
      and ?w1.0 = ex_directory and spec = "''out:''" and role = "''out''" and l = "[]"
      and after = "[''log:'']"]
    1 2 3 4
  have 7: "\<not> exists ex_directory (join_root ''/t/root'' ''/out/result.txt'') \<and>
   download_and_print ''/t/root'' ''/out/result.txt'' ex_directory =
     (Inl (SystemExit 1),
      emit (Log CRITICAL ''Can't get output file (doesn't exist): /t/root/out/result.txt'')
        ex_directory) \<and>
   fs ex_directory (pjoin ''/t'' ''inputs.tar.gz'') = None \<and>
   download_specs ''/t/root'' (output_files ex_run) [] ex_directory = (Inr (), ex_directory) \<and>
   split_spec ''out:'' = Some (''out'', []) \<and>
   map_of (output_files ex_run) ''out'' = Some ''/out/result.txt'' \<and>
   download_specs ''/t/root'' (output_files ex_run) ([] @ ''out:'' # [''log:'']) ex_directory =
     (Inl (SystemExit 1),
      emit (Log CRITICAL ''Can't get output file (doesn't exist): /t/root/out/result.txt'')
        ex_directory)"
    by (simp add: j del: download_specs.simps)
  from 5 6 7 show ?thesis
    by (intro conjI) (simp_all del: download_specs.simps)
qed

end
